theory Spec2Isabelle
  imports Complex_Main
begin

section \<open>Conventions of the embedding\<close>

text \<open>
  The sources are Python over numpy float64 arrays and pandas series.  A float64 is
  modelled by a real number.  In the statistics, the directional simulators, the scorer,
  the indicators and the aggregator the arithmetic is exact, without rounding or
  overflow.  The grid strategy, of which exact values are claimed, rounds every operation
  with a rounding given as a parameter, which can be the rounding of float64.
  The special values appear where the source itself produces or tests them:
  \<^item> \<open>np.nan\<close> in an indicator array is \<open>None\<close> of \<open>real option\<close>; arithmetic on it gives
    \<open>None\<close> again and every comparison with it is false, as in IEEE arithmetic;
  \<^item> \<open>np.inf\<close> as a profit factor is the constructor \<open>PInf\<close> of \<open>xreal\<close>.
  Timestamps are natural numbers (seconds), a calendar date is the day number.
  A pandas series is the list of its (index, value) rows, a data frame of candles the
  list of its rows.  Python names that start with an underscore lose it.
\<close>

type_synonym ts = nat
type_synonym date = int
type_synonym series = "(ts \<times> real) list"

datatype xreal = Fin real | PInf

definition date_of :: "ts \<Rightarrow> date" where
  "date_of t = int (t div 86400)"

text \<open>Python's \<open>round(x, 2)\<close>, ties to even, on exact values.\<close>

definition round_half_even :: "real \<Rightarrow> int" where
  "round_half_even y =
     (let f = \<lfloor>y\<rfloor>; d = y - of_int f
      in if d < 1 / 2 then f else if 1 / 2 < d then f + 1
         else if even f then f else f + 1)"

definition round2 :: "real \<Rightarrow> real" where
  "round2 x = of_int (round_half_even (x * 100)) / 100"

definition xround2 :: "xreal \<Rightarrow> xreal" where
  "xround2 x = (case x of Fin r \<Rightarrow> Fin (round2 r) | PInf \<Rightarrow> PInf)"

text \<open>
  \<open>xs[i]\<close> and \<open>s.iloc[i]\<close> of Python: positions below zero are read from the back, a
  position outside the array raises.
\<close>

datatype error = IndexError | ZeroDivisionError | TypeError | ValueError | KeyError
  | NaN_in_equity_curve

definition py_index :: "'a list \<Rightarrow> int \<Rightarrow> error + 'a" where
  "py_index xs i =
     (if 0 \<le> i \<and> i < int (length xs) then Inr (xs ! nat i)
      else if i < 0 \<and> - int (length xs) \<le> i then Inr (xs ! nat (int (length xs) + i))
      else Inl IndexError)"

section \<open>Data model\<close>

record candle =
  c_ts :: ts
  c_open :: real
  c_high :: real
  c_low :: real
  c_close :: real
  c_volume :: real

type_synonym dataframe = "candle list"

text \<open>The columns every trade log has; each simulation mode adds its own.\<close>

record trade =
  exit_time :: ts
  exit_price :: real
  pnl_percent :: real
  pnl_value :: real
  exit_reason :: string

section \<open>core/backtest_engine.py: calculate_stats\<close>

record stats =
  Start_Period :: "date option"
  End_Period :: "date option"
  Duration_days :: int
  Initial_Capital :: real
  Final_Capital :: real
  Total_Return_pct :: real
  Buy_and_Hold_pct :: real
  Max_Drawdown_pct :: real
  Sharpe_Ratio :: "real option"
  Sortino_Ratio :: "real option"
  Total_Trades :: nat
  Win_Rate_pct :: real
  Profit_Factor :: xreal
  Avg_Trade_PnL_pct :: real
  Avg_Win_PnL_pct :: real
  Avg_Loss_PnL_pct :: real
  Exit_Reason_Counts :: "string \<rightharpoonup> nat"

definition wins :: "('a trade_scheme) list \<Rightarrow> ('a trade_scheme) list" where
  "wins trades_df = filter (\<lambda>t. 0 < pnl_value t) trades_df"

definition losses :: "('a trade_scheme) list \<Rightarrow> ('a trade_scheme) list" where
  "losses trades_df = filter (\<lambda>t. pnl_value t \<le> 0) trades_df"

definition profit_factor :: "('a trade_scheme) list \<Rightarrow> xreal" where
  "profit_factor trades_df =
     (if 0 < \<bar>sum_list (map pnl_value (losses trades_df))\<bar>
      then Fin (sum_list (map pnl_value (wins trades_df))
                / \<bar>sum_list (map pnl_value (losses trades_df))\<bar>)
      else PInf)"

definition mean :: "real list \<Rightarrow> real" where
  "mean xs = sum_list xs / real (length xs)"

text \<open>pandas \<open>std\<close>: the sample deviation, not-a-number below two observations.\<close>

definition std :: "real list \<Rightarrow> real option" where
  "std xs =
     (if length xs < 2 then None
      else Some (sqrt (sum_list (map (\<lambda>x. (x - mean xs)\<^sup>2) xs) / real (length xs - 1))))"

fun cummax_from :: "real \<Rightarrow> real list \<Rightarrow> real list" where
  "cummax_from m [] = []"
| "cummax_from m (x # xs) = max m x # cummax_from (max m x) xs"

definition cummax :: "real list \<Rightarrow> real list" where
  "cummax xs = (case xs of [] \<Rightarrow> [] | x # ys \<Rightarrow> x # cummax_from x ys)"

definition drawdown :: "real list \<Rightarrow> real list" where
  "drawdown eq = map (\<lambda>(e, p). (e - p) / p) (zip eq (cummax eq))"

fun min_list :: "real list \<Rightarrow> real" where
  "min_list [] = 0"
| "min_list [x] = x"
| "min_list (x # y # ys) = min x (min_list (y # ys))"

fun max_list :: "real list \<Rightarrow> real" where
  "max_list [] = 0"
| "max_list [x] = x"
| "max_list (x # y # ys) = max x (max_list (y # ys))"

text \<open>\<open>pct_change().dropna()\<close>: the first row has no predecessor and is dropped.\<close>

fun pct_change :: "real list \<Rightarrow> real list" where
  "pct_change (a # b # xs) = (b - a) / a # pct_change (b # xs)"
| "pct_change xs = []"

definition sharpe_ratio :: "real list \<Rightarrow> real option" where
  "sharpe_ratio returns =
     (case std returns of
        None \<Rightarrow> None
      | Some s \<Rightarrow> if s \<noteq> 0 then Some (sqrt 365 * mean returns / s) else Some 0)"

definition sortino_ratio :: "real list \<Rightarrow> real option" where
  "sortino_ratio returns =
     (let negative_returns = filter (\<lambda>r. r < 0) returns
      in case std negative_returns of
           Some s \<Rightarrow>
             if 1 < length negative_returns \<and> s \<noteq> 0
             then Some (sqrt 365 * mean returns / s) else Some 0
         | None \<Rightarrow> Some 0)"

definition value_counts :: "string list \<Rightarrow> (string \<rightharpoonup> nat)" where
  "value_counts rs = (\<lambda>r. if r \<in> set rs then Some (count_list rs r) else None)"

definition duration :: "date option \<Rightarrow> date option \<Rightarrow> int" where
  "duration start_date end_date =
     (case (start_date, end_date) of (Some s, Some e) \<Rightarrow> e - s | _ \<Rightarrow> 0)"

text \<open>
  The first branch is the guard of line 8.  The second branch subtracts the dates and
  rounds the benchmark return without a test for \<open>None\<close>, which raises \<open>TypeError\<close>.
\<close>

definition calculate_stats ::
  "('a trade_scheme) list \<Rightarrow> series \<Rightarrow> real \<Rightarrow> date option \<Rightarrow> date option \<Rightarrow> real option
     \<Rightarrow> error + stats" where
  "calculate_stats trades_df equity_curve initial_capital start_date end_date bh_return =
     (if trades_df = [] \<or> equity_curve = [] then
        Inr \<lparr> Start_Period = start_date, End_Period = end_date,
          Duration_days = duration start_date end_date,
          Initial_Capital = initial_capital, Final_Capital = initial_capital,
          Total_Return_pct = 0,
          Buy_and_Hold_pct = (case bh_return of Some b \<Rightarrow> round2 b | None \<Rightarrow> 0),
          Max_Drawdown_pct = 0, Sharpe_Ratio = Some 0, Sortino_Ratio = Some 0,
          Total_Trades = 0, Win_Rate_pct = 0, Profit_Factor = Fin 0,
          Avg_Trade_PnL_pct = 0, Avg_Win_PnL_pct = 0, Avg_Loss_PnL_pct = 0,
          Exit_Reason_Counts = Map.empty \<rparr>
      else
        case (start_date, end_date, bh_return) of
          (Some sd, Some ed, Some bh) \<Rightarrow>
            let eqv = map snd equity_curve;
                equity = last eqv;
                total_return_pct = (equity - initial_capital) / initial_capital * 100;
                win_rate = real (length (wins trades_df)) / real (length trades_df) * 100;
                max_drawdown_pct = \<bar>min_list (drawdown eqv) * 100\<bar>;
                returns = pct_change eqv
            in Inr \<lparr> Start_Period = start_date, End_Period = end_date,
                 Duration_days = ed - sd,
                 Initial_Capital = initial_capital, Final_Capital = equity,
                 Total_Return_pct = round2 total_return_pct,
                 Buy_and_Hold_pct = round2 bh,
                 Max_Drawdown_pct = round2 max_drawdown_pct,
                 Sharpe_Ratio = map_option round2 (sharpe_ratio returns),
                 Sortino_Ratio = map_option round2 (sortino_ratio returns),
                 Total_Trades = length trades_df,
                 Win_Rate_pct = round2 win_rate,
                 Profit_Factor = xround2 (profit_factor trades_df),
                 Avg_Trade_PnL_pct = round2 (mean (map pnl_percent trades_df)),
                 Avg_Win_PnL_pct =
                   (if wins trades_df \<noteq> []
                    then round2 (mean (map pnl_percent (wins trades_df))) else 0),
                 Avg_Loss_PnL_pct =
                   (if losses trades_df \<noteq> []
                    then round2 (mean (map pnl_percent (losses trades_df))) else 0),
                 Exit_Reason_Counts = value_counts (map exit_reason trades_df) \<rparr>
        | _ \<Rightarrow> Inl TypeError)"

text \<open>
  Three trades that close at a gain of 5, a loss of 2 and exactly zero; one trade that
  closes at exactly zero; and an equity curve of two days.
\<close>

definition mixed_trades :: "trade list" where
  "mixed_trades =
     [\<lparr> exit_time = 86400, exit_price = 105, pnl_percent = 5, pnl_value = 5,
        exit_reason = ''Take Profit'' \<rparr>,
      \<lparr> exit_time = 172800, exit_price = 98, pnl_percent = - 2, pnl_value = - 2,
        exit_reason = ''Stop Loss'' \<rparr>,
      \<lparr> exit_time = 259200, exit_price = 100, pnl_percent = 0, pnl_value = 0,
        exit_reason = ''Stop Loss'' \<rparr>]"

definition flat_trade :: "trade list" where
  "flat_trade =
     [\<lparr> exit_time = 86400, exit_price = 100, pnl_percent = 0, pnl_value = 0,
        exit_reason = ''Stop Loss'' \<rparr>]"

definition two_days :: series where
  "two_days = [(0, 1000), (86400, 1000)]"

section \<open>core/backtest_engine.py: the effective start index\<close>

record config =
  INITIAL_CAPITAL :: real
  BACKTEST_START_DATE :: ts
  TECHNICAL_WARMUP_PERIOD :: "nat option"
  REOPTIMIZE_EVERY :: nat
  OPTIMIZATION_LOOKBACK :: nat
  TRAIL_TRIGGER_MULT :: real

text \<open>\<open>searchsorted(v, side='left')\<close> on an ascending column: the rows before \<open>v\<close>.\<close>

definition searchsorted_left :: "ts list \<Rightarrow> ts \<Rightarrow> nat" where
  "searchsorted_left col v = length (takeWhile (\<lambda>t. t < v) col)"

text \<open>
  What \<open>_get_start_index\<close> writes to standard output: the warning of line 36 with the
  required index and the data length, or the notice of line 38 with the index and its date.
\<close>

datatype printed = Warning_not_enough_data nat nat | Notice_start nat date

definition get_start_index :: "dataframe \<Rightarrow> 'a config_scheme \<Rightarrow> printed \<times> nat option" where
  "get_start_index df config =
     (let start_ts = BACKTEST_START_DATE config;
          requested_start_idx = searchsorted_left (map c_ts df) start_ts;
          technical_warmup = (case TECHNICAL_WARMUP_PERIOD config of Some w \<Rightarrow> w | None \<Rightarrow> 200);
          start_index = max technical_warmup requested_start_idx
      in if length df \<le> start_index
         then (Warning_not_enough_data start_index (length df), None)
         else (Notice_start start_index (date_of (c_ts (df ! start_index))), Some start_index))"

text \<open>
  What a run returns: the statistics dictionary (\<open>None\<close> is the empty dictionary \<open>{}\<close>),
  the trade table, the equity curve and the buy-and-hold curve.
\<close>

record 't run_result =
  r_stats :: "stats option"
  r_trades :: "'t list"
  r_equity :: series
  r_bh_equity :: series

definition empty_result :: "'t run_result" where
  "empty_result = \<lparr> r_stats = None, r_trades = [], r_equity = [], r_bh_equity = [] \<rparr>"

text \<open>The tail every run shares: benchmark return, benchmark curve, statistics.\<close>

definition bh_return_of :: "real list \<Rightarrow> nat \<Rightarrow> real" where
  "bh_return_of close start_index =
     (let start_price = close ! start_index; end_price = last close
      in if 0 < start_price then (end_price - start_price) / start_price * 100 else 0)"

definition bh_equity_of :: "dataframe \<Rightarrow> nat \<Rightarrow> real \<Rightarrow> series" where
  "bh_equity_of df start_index initial_capital =
     (let start_price = c_close (df ! start_index); rows = drop start_index df
      in if 0 < start_price
         then map (\<lambda>c. (c_ts c, c_close c / start_price * initial_capital)) rows
         else map (\<lambda>c. (c_ts c, initial_capital)) rows)"

definition finish_run ::
  "dataframe \<Rightarrow> nat \<Rightarrow> real \<Rightarrow> ('a trade_scheme) list \<Rightarrow> series
     \<Rightarrow> error + ('a trade_scheme) run_result" where
  "finish_run df start_index initial_capital trades_df equity_curve_s =
     (let ts_slice = map c_ts (drop start_index df);
          bh_return = bh_return_of (map c_close df) start_index;
          bh_equity_s = bh_equity_of df start_index initial_capital;
          start_date = date_of (hd ts_slice);
          end_date = date_of (last ts_slice)
      in case calculate_stats trades_df equity_curve_s initial_capital
                (Some start_date) (Some end_date) (Some bh_return) of
           Inl e \<Rightarrow> Inl e
         | Inr st \<Rightarrow> Inr \<lparr> r_stats = Some st, r_trades = trades_df,
                          r_equity = equity_curve_s, r_bh_equity = bh_equity_s \<rparr>)"

section \<open>strategies/base_strategy.py: the directional interface\<close>

record position =
  in_pos :: bool
  entry_price :: real
  stop_price :: real
  qty :: real
  pos_value :: real
  entry_time :: "ts option"

text \<open>The trade log of the generic mode: a copy of the position plus the exit columns.\<close>

record generic_trade = trade +
  pos :: position

record strategy =
  get_entry_signal :: "nat \<Rightarrow> bool"
  get_exit_signal :: "nat \<Rightarrow> position \<Rightarrow> string option"
  get_stop_loss_price :: "nat \<Rightarrow> real \<Rightarrow> real"
  get_take_profit_price :: "nat \<Rightarrow> position \<Rightarrow> real option"
  update_trailing_stop :: "nat \<Rightarrow> real \<Rightarrow> position \<Rightarrow> position"

definition BaseStrategy :: strategy where
  "BaseStrategy =
     \<lparr> get_entry_signal = (\<lambda>i. False),
       get_exit_signal = (\<lambda>i position. None),
       get_stop_loss_price = (\<lambda>i entry_price. entry_price * (9 / 10)),
       get_take_profit_price = (\<lambda>i position. None),
       update_trailing_stop = (\<lambda>i current_price position. position) \<rparr>"

text \<open>
  Python truth values: \<open>None\<close> and the empty string are false for an exit reason,
  \<open>None\<close> and \<open>0.0\<close> are false for a price.
\<close>

definition truthy_reason :: "string option \<Rightarrow> bool" where
  "truthy_reason r = (case r of None \<Rightarrow> False | Some s \<Rightarrow> s \<noteq> [])"

definition truthy_price :: "real option \<Rightarrow> bool" where
  "truthy_price p = (case p of None \<Rightarrow> False | Some x \<Rightarrow> x \<noteq> 0)"

section \<open>core/backtest_engine.py: run_generic_backtest\<close>

definition flat_position :: position where
  "flat_position =
     \<lparr> in_pos = False, entry_price = 0, stop_price = 0, qty = 0, pos_value = 0,
       entry_time = None \<rparr>"

record sim_state =
  s_cash :: real
  s_equity :: real
  s_position :: position
  s_trades :: "generic_trade list"
  s_equity_curve :: "real list"

text \<open>
  Lines 117 to 127: the exit reason of a candle on which a position is open, and the
  position as the trailing-stop update may have changed it.
\<close>

definition exit_check :: "strategy \<Rightarrow> nat \<Rightarrow> real \<Rightarrow> position \<Rightarrow> string option \<times> position" where
  "exit_check strategy i price position0 =
     (let tp_price = get_take_profit_price strategy i position0;
          exit_reason1 =
            (if truthy_price tp_price \<and> the tp_price \<le> price then Some ''Take Profit'' else None);
          (exit_reason2, position1) =
            (if \<not> truthy_reason exit_reason1 then
               let p = update_trailing_stop strategy i price position0
               in (if price \<le> stop_price p then Some ''Stop Loss'' else exit_reason1, p)
             else (exit_reason1, position0));
          exit_reason3 =
            (if \<not> truthy_reason exit_reason2 then get_exit_signal strategy i position1
             else exit_reason2)
      in (exit_reason3, position1))"

definition close_position :: "ts \<Rightarrow> real \<Rightarrow> string \<Rightarrow> sim_state \<Rightarrow> position \<Rightarrow> sim_state" where
  "close_position t price reason s position1 =
     (let proceeds = qty position1 * price;
          pnl_val = proceeds - pos_value position1;
          trade_log =
            \<lparr> exit_time = t, exit_price = price,
              pnl_percent = (if 0 < pos_value position1 then pnl_val / pos_value position1 * 100 else 0),
              pnl_value = pnl_val, exit_reason = reason, pos = position1 \<rparr>
      in s\<lparr> s_trades := s_trades s @ [trade_log], s_cash := proceeds, s_equity := proceeds,
            s_position := flat_position \<rparr>)"

definition exit_phase :: "strategy \<Rightarrow> ts \<Rightarrow> nat \<Rightarrow> real \<Rightarrow> sim_state \<Rightarrow> sim_state" where
  "exit_phase strategy t i price s =
     (if in_pos (s_position s) then
        (case exit_check strategy i price (s_position s) of
           (reason, position1) \<Rightarrow>
             if truthy_reason reason
             then close_position t price (the reason) s position1
             else s\<lparr> s_position := position1 \<rparr>)
      else s)"

definition entry_phase :: "strategy \<Rightarrow> ts \<Rightarrow> nat \<Rightarrow> real \<Rightarrow> sim_state \<Rightarrow> sim_state" where
  "entry_phase strategy t i price s =
     (if \<not> in_pos (s_position s) then
        if get_entry_signal strategy i \<and> 0 < s_cash s then
          let stop_p = get_stop_loss_price strategy i price
          in if stop_p < price
             then s\<lparr> s_position :=
                        \<lparr> in_pos = True, entry_price = price, stop_price = stop_p,
                          qty = s_cash s / price, pos_value = s_cash s, entry_time = Some t \<rparr>,
                     s_cash := 0 \<rparr>
             else s
        else s
      else s)"

definition generic_step :: "strategy \<Rightarrow> dataframe \<Rightarrow> nat \<Rightarrow> sim_state \<Rightarrow> nat \<Rightarrow> sim_state" where
  "generic_step strategy df start_index s i =
     (let price = c_close (df ! i);
          t = c_ts (df ! i);
          idx = i - start_index;
          s1 = exit_phase strategy t i price s;
          s2 = entry_phase strategy t i price s1;
          current_value = (if in_pos (s_position s2) then qty (s_position s2) * price else s_cash s2)
      in s2\<lparr> s_equity_curve := (s_equity_curve s2)[idx := current_value] \<rparr>)"

definition generic_init :: "dataframe \<Rightarrow> nat \<Rightarrow> real \<Rightarrow> sim_state" where
  "generic_init df start_index initial_capital =
     \<lparr> s_cash = initial_capital, s_equity = initial_capital, s_position = flat_position,
       s_trades = [],
       s_equity_curve = replicate (length df - start_index) initial_capital \<rparr>"

definition run_generic_backtest ::
  "dataframe \<Rightarrow> strategy \<Rightarrow> 'a config_scheme \<Rightarrow> error + generic_trade run_result" where
  "run_generic_backtest df strategy config =
     (let initial_capital = INITIAL_CAPITAL config
      in case snd (get_start_index df config) of
           None \<Rightarrow> Inr empty_result
         | Some start_index \<Rightarrow>
             if length df \<le> start_index then Inr empty_result
             else
               let s = foldl (generic_step strategy df start_index)
                         (generic_init df start_index initial_capital)
                         [start_index ..< length df];
                   equity_curve_s = zip (map c_ts (drop start_index df)) (s_equity_curve s)
               in finish_run df start_index initial_capital (s_trades s) equity_curve_s)"

text \<open>Two concrete inputs used below: a strategy whose take-profit price is \<open>0.0\<close>, and one
  with a take-profit price of 12; an open position bought at 10 with its stop at 9 or at 20.\<close>

definition zero_tp_strategy :: strategy where
  "zero_tp_strategy = BaseStrategy\<lparr> get_take_profit_price := (\<lambda>i position. Some 0) \<rparr>"

definition tp12_strategy :: strategy where
  "tp12_strategy =
     BaseStrategy\<lparr> get_take_profit_price := (\<lambda>i position. Some 12),
                   get_exit_signal := (\<lambda>i position. Some ''RSI Overbought'') \<rparr>"

definition one_candle :: "real \<Rightarrow> dataframe" where
  "one_candle c =
     [\<lparr> c_ts = 86400, c_open = c, c_high = c, c_low = c, c_close = c, c_volume = 1 \<rparr>]"

definition open_state :: "real \<Rightarrow> sim_state" where
  "open_state stop =
     \<lparr> s_cash = 0, s_equity = 10,
       s_position = \<lparr> in_pos = True, entry_price = 10, stop_price = stop, qty = 1,
                      pos_value = 10, entry_time = Some 0 \<rparr>,
       s_trades = [], s_equity_curve = [10] \<rparr>"

section \<open>strategies/strategy_library.py: GridStrategy\<close>

record grid_params =
  P_INITIAL_CAPITAL :: real
  GQ_GRID_MAX_GRIDS :: int
  GQ_GRID_GRID_SPACING_PCT :: real

text \<open>A closed grid pair: the entry time is the text \<open>N/A\<close>, the entry price the paired buy level.\<close>

record grid_trade = trade +
  g_entry_price :: real

text \<open>
  \<open>buy_orders\<close> and \<open>sell_orders\<close> are dictionaries from a price level to \<open>True\<close>; only
  the keys matter.  A dictionary is the list of its keys in insertion order, without
  repetition: assigning to a key that is present changes nothing.
\<close>

definition dict_set :: "real list \<Rightarrow> real \<Rightarrow> real list" where
  "dict_set d k = (if k \<in> set d then d else d @ [k])"

definition dict_del :: "real list \<Rightarrow> real \<Rightarrow> real list" where
  "dict_del d k = removeAll k d"

record grid_state =
  base_asset_qty :: real
  g_cash :: real
  g_equity_curve :: series
  g_trades :: "grid_trade list"
  g_data :: dataframe
  grid_spacing_factor :: real
  quote_qty_per_grid :: real
  max_grids :: int
  buy_orders :: "real list"
  sell_orders :: "real list"

text \<open>
  The arithmetic of the grid strategy is float64 arithmetic, and the claims about it
  speak of exact values.  Every operation of the source is therefore written as the exact
  operation followed by a rounding \<open>fl\<close>, which the strategy functions take as their first
  argument.  Two roundings are used: \<open>exact\<close>, which rounds nothing, and \<open>fl64\<close>, the
  rounding of float64 to 53 significant bits, to nearest and ties to even.  Overflow to
  infinity and subnormal numbers are outside \<open>fl64\<close>.
\<close>

definition exact :: "real \<Rightarrow> real" where
  "exact x = x"

definition pow2 :: "int \<Rightarrow> real" where
  "pow2 e = (if 0 \<le> e then 2 ^ nat e else 1 / 2 ^ nat (- e))"

text \<open>Scale \<open>m\<close> by powers of two until its magnitude lies between \<open>2^52\<close> and \<open>2^53\<close>.\<close>

fun scale53 :: "nat \<Rightarrow> real \<Rightarrow> int \<Rightarrow> real \<times> int" where
  "scale53 0 m e = (m, e)"
| "scale53 (Suc n) m e =
     (if 9007199254740992 \<le> \<bar>m\<bar> then scale53 n (m / 2) (e + 1)
      else if \<bar>m\<bar> < 4503599627370496 then scale53 n (m * 2) (e - 1)
      else (m, e))"

definition fl64 :: "real \<Rightarrow> real" where
  "fl64 x =
     (if x = 0 then 0
      else case scale53 2200 x 0 of (m, e) \<Rightarrow> real_of_int (round_half_even m) * pow2 e)"

text \<open>The two set-up loops of lines 53 to 62: \<open>n\<close> levels, each one \<open>step\<close> away from the last.\<close>

fun ladder :: "(real \<Rightarrow> real) \<Rightarrow> nat \<Rightarrow> real \<Rightarrow> real list \<Rightarrow> real list" where
  "ladder step 0 current_price orders = orders"
| "ladder step (Suc n) current_price orders =
     ladder step n (step current_price) (dict_set orders current_price)"

text \<open>
  \<open>init_continuous_backtest\<close>.  The start price is read at position \<open>start_index - 1\<close>
  with Python's indexing, so that a start index of zero reads the last candle; the
  division of line 42 raises for zero grids.
\<close>

definition init_continuous_backtest ::
  "(real \<Rightarrow> real) \<Rightarrow> grid_params \<Rightarrow> real \<Rightarrow> nat \<Rightarrow> dataframe \<Rightarrow> error + grid_state" where
  "init_continuous_backtest fl p initial_capital start_index df =
     (case py_index df (int start_index - 1) of
        Inl e \<Rightarrow> Inl e
      | Inr start_candle \<Rightarrow>
          if GQ_GRID_MAX_GRIDS p = 0 then Inl ZeroDivisionError
          else
            let start_price = c_close start_candle;
                qty0 = fl (fl (initial_capital / 2) / start_price);
                cash0 = fl (initial_capital / 2);
                factor = fl (1 + fl (GQ_GRID_GRID_SPACING_PCT p / 100));
                num_buy_side_grids = GQ_GRID_MAX_GRIDS p div 2;
                num_sell_side_grids = GQ_GRID_MAX_GRIDS p - num_buy_side_grids;
                initial_equity = fl (cash0 + fl (qty0 * start_price))
            in Inr \<lparr> base_asset_qty = qty0, g_cash = cash0,
                     g_equity_curve = [(c_ts start_candle, initial_equity)],
                     g_trades = [], g_data = df,
                     grid_spacing_factor = factor,
                     quote_qty_per_grid =
                       fl (P_INITIAL_CAPITAL p / real_of_int (GQ_GRID_MAX_GRIDS p)),
                     max_grids = GQ_GRID_MAX_GRIDS p,
                     buy_orders =
                       ladder (\<lambda>c. fl (c / factor)) (nat num_buy_side_grids)
                         (fl (start_price / factor)) [],
                     sell_orders =
                       ladder (\<lambda>c. fl (c * factor)) (nat num_sell_side_grids)
                         (fl (start_price * factor)) [] \<rparr>)"

text \<open>The candle the start price is read from, when there is one.\<close>

definition start_candle_of :: "nat \<Rightarrow> dataframe \<Rightarrow> candle" where
  "start_candle_of start_index df = (if start_index = 0 then last df else df ! (start_index - 1))"

text \<open>
  One pass of the buy loop (lines 73 to 84) and of the sell loop (lines 89 to 111).  The
  level deleted is a key of the dictionary: the loop runs over keys collected before
  it starts and deletes no key but its own.
\<close>

definition fill_buy :: "(real \<Rightarrow> real) \<Rightarrow> real \<Rightarrow> grid_state \<Rightarrow> grid_state" where
  "fill_buy fl level g =
     (if g_cash g < quote_qty_per_grid g then g
      else
        let base_qty_to_buy = fl (quote_qty_per_grid g / level);
            g1 = g\<lparr> g_cash := fl (g_cash g - quote_qty_per_grid g),
                   base_asset_qty := fl (base_asset_qty g + base_qty_to_buy),
                   buy_orders := dict_del (buy_orders g) level,
                   sell_orders := dict_set (sell_orders g) (fl (level * grid_spacing_factor g)) \<rparr>
        in if buy_orders g1 \<noteq> []
           then g1\<lparr> buy_orders :=
                      dict_set (buy_orders g1)
                        (fl (min_list (buy_orders g1) / grid_spacing_factor g)) \<rparr>
           else g1)"

definition fill_sell :: "(real \<Rightarrow> real) \<Rightarrow> ts \<Rightarrow> real \<Rightarrow> grid_state \<Rightarrow> grid_state" where
  "fill_sell fl t level g =
     (let buy_price = fl (level / grid_spacing_factor g);
          base_qty_to_sell = fl (quote_qty_per_grid g / buy_price)
      in if base_asset_qty g < base_qty_to_sell then g
         else
           let pnl_val = fl (fl (level - buy_price) * base_qty_to_sell);
               pnl_pct = fl (fl (pnl_val / quote_qty_per_grid g) * 100);
               g1 = g\<lparr> g_cash := fl (g_cash g + fl (level * base_qty_to_sell)),
                      base_asset_qty := fl (base_asset_qty g - base_qty_to_sell),
                      g_trades := g_trades g @
                        [\<lparr> exit_time = t, exit_price = level, pnl_percent = pnl_pct,
                           pnl_value = pnl_val, exit_reason = ''Grid Pair Closed'',
                           g_entry_price = buy_price \<rparr>],
                      sell_orders := dict_del (sell_orders g) level,
                      buy_orders := dict_set (buy_orders g) (fl (level / grid_spacing_factor g)) \<rparr>
           in if sell_orders g1 \<noteq> []
              then g1\<lparr> sell_orders :=
                         dict_set (sell_orders g1)
                           (fl (max_list (sell_orders g1) * grid_spacing_factor g)) \<rparr>
              else g1)"

definition process_candle :: "(real \<Rightarrow> real) \<Rightarrow> nat \<Rightarrow> grid_state \<Rightarrow> grid_state" where
  "process_candle fl i g =
     (let candle_low = c_low (g_data g ! i);
          candle_high = c_high (g_data g ! i);
          filled_buys = filter (\<lambda>level. candle_low \<le> level) (buy_orders g);
          g1 = fold (fill_buy fl) (rev (sort filled_buys)) g;
          filled_sells = filter (\<lambda>level. level \<le> candle_high) (sell_orders g1);
          g2 = fold (fill_sell fl (c_ts (g_data g ! i))) (sort filled_sells) g1;
          current_equity = fl (g_cash g2 + fl (base_asset_qty g2 * c_close (g_data g ! i)))
      in g2\<lparr> g_equity_curve := g_equity_curve g2 @ [(c_ts (g_data g ! i), current_equity)] \<rparr>)"

text \<open>\<open>drop_duplicates(subset='ts')\<close> keeps the first row of every timestamp.\<close>

fun drop_duplicates :: "ts list \<Rightarrow> series \<Rightarrow> series" where
  "drop_duplicates seen [] = []"
| "drop_duplicates seen (r # rs) =
     (if fst r \<in> set seen then drop_duplicates seen rs
      else r # drop_duplicates (fst r # seen) rs)"

definition get_continuous_results :: "grid_state \<Rightarrow> grid_trade list \<times> series" where
  "get_continuous_results g =
     (if g_equity_curve g = [] then (g_trades g, [])
      else (g_trades g, drop_duplicates [] (g_equity_curve g)))"

text \<open>The number of pending price levels: the keys of both dictionaries, each counted once.\<close>

definition pending_levels :: "grid_state \<Rightarrow> nat" where
  "pending_levels g = card (set (buy_orders g) \<union> set (sell_orders g))"

text \<open>
  A grid of four levels, one percent apart, on 1000 of capital.  The first candle closes
  at 100; the second ranges from 99.5 down to 99, through the first buy level 100 / 1.01 and
  below every sell level.
\<close>

definition grid4 :: grid_params where
  "grid4 = \<lparr> P_INITIAL_CAPITAL = 1000, GQ_GRID_MAX_GRIDS = 4, GQ_GRID_GRID_SPACING_PCT = 1 \<rparr>"

definition dip_candles :: dataframe where
  "dip_candles =
     [\<lparr> c_ts = 0, c_open = 100, c_high = 100, c_low = 100, c_close = 100, c_volume = 1 \<rparr>,
      \<lparr> c_ts = 86400, c_open = 99.5, c_high = 99.5, c_low = 99, c_close = 99, c_volume = 1 \<rparr>]"

text \<open>
  A capital of 333.33 and a start price of 1.27, as the float64 values nearest to them.
\<close>

definition capital_333_33 :: real where
  "capital_333_33 = 5864003374185185 / 17592186044416"

definition price_1_27 :: real where
  "price_1_27 = 2859785763380265 / 2251799813685248"

definition candle_1_27 :: dataframe where
  "candle_1_27 =
     [\<lparr> c_ts = 0, c_open = price_1_27, c_high = price_1_27, c_low = price_1_27,
        c_close = price_1_27, c_volume = 1 \<rparr>]"

section \<open>core/backtest_engine.py: run_continuous_backtest\<close>

text \<open>
  The continuous interface of \<open>BaseStrategy\<close>: the strategy keeps its own state \<open>'s\<close>.
\<close>

record ('s, 't) continuous_strategy =
  cs_init_continuous_backtest :: "real \<Rightarrow> nat \<Rightarrow> dataframe \<Rightarrow> error + 's"
  cs_process_candle :: "nat \<Rightarrow> 's \<Rightarrow> 's"
  cs_get_continuous_results :: "'s \<Rightarrow> 't list \<times> series"

definition GridStrategy ::
  "(real \<Rightarrow> real) \<Rightarrow> grid_params \<Rightarrow> (grid_state, grid_trade) continuous_strategy" where
  "GridStrategy fl p =
     \<lparr> cs_init_continuous_backtest = init_continuous_backtest fl p,
       cs_process_candle = process_candle fl,
       cs_get_continuous_results = get_continuous_results \<rparr>"

text \<open>Lines 175 to 178: initialise, then process every candle from the start index on.\<close>

definition continuous_loop ::
  "('s, 't) continuous_strategy \<Rightarrow> dataframe \<Rightarrow> real \<Rightarrow> nat \<Rightarrow> error + 's" where
  "continuous_loop strategy df initial_capital start_index =
     (case cs_init_continuous_backtest strategy initial_capital start_index df of
        Inl e \<Rightarrow> Inl e
      | Inr st \<Rightarrow> Inr (fold (cs_process_candle strategy) [start_index ..< length df] st))"

text \<open>
  \<open>reindex(ts_slice, method='ffill')\<close>.  pandas refuses an index that is neither ascending
  nor descending.  A label of the slice takes the value of the row with that label; a
  label that is no row takes the value of the last row before it in the order of the
  index, and has no value (\<open>None\<close>, a not-a-number) when there is none.
\<close>

definition pad_value :: "series \<Rightarrow> ts \<Rightarrow> real option" where
  "pad_value s t =
     (case map_of s t of
        Some v \<Rightarrow> Some v
      | None \<Rightarrow>
          (case (if sorted (map fst s) then filter (\<lambda>r. fst r < t) s
                 else filter (\<lambda>r. t < fst r) s) of
             [] \<Rightarrow> None
           | r # rs \<Rightarrow> Some (snd (last (r # rs)))))"

definition reindex_ffill :: "series \<Rightarrow> ts list \<Rightarrow> error + (ts \<times> real option) list" where
  "reindex_ffill s idx =
     (if sorted (map fst s) \<or> sorted (rev (map fst s))
      then Inr (map (\<lambda>t. (t, pad_value s t)) idx)
      else Inl ValueError)"

text \<open>
  A curve of reals cannot hold a not-a-number row; the model of the run stops with
  \<open>NaN_in_equity_curve\<close> where pandas would carry one into the statistics.  The grid
  strategy never produces one: every timestamp of the slice is a row of its curve.
\<close>

fun defined_rows :: "(ts \<times> real option) list \<Rightarrow> series option" where
  "defined_rows [] = Some []"
| "defined_rows ((t, None) # rs) = None"
| "defined_rows ((t, Some v) # rs) = map_option ((#) (t, v)) (defined_rows rs)"

definition run_continuous_backtest ::
  "dataframe \<Rightarrow> ('s, 'a trade_scheme) continuous_strategy \<Rightarrow> 'c config_scheme
     \<Rightarrow> error + ('a trade_scheme) run_result" where
  "run_continuous_backtest df strategy config =
     (let initial_capital = INITIAL_CAPITAL config
      in case snd (get_start_index df config) of
           None \<Rightarrow> Inr empty_result
         | Some start_index \<Rightarrow>
             (case continuous_loop strategy df initial_capital start_index of
                Inl e \<Rightarrow> Inl e
              | Inr st \<Rightarrow>
                  (case cs_get_continuous_results strategy st of
                     (trades_df, equity_curve_s) \<Rightarrow>
                       (case reindex_ffill equity_curve_s (map c_ts (drop start_index df)) of
                          Inl e \<Rightarrow> Inl e
                        | Inr rows \<Rightarrow>
                            (case defined_rows rows of
                               None \<Rightarrow> Inl NaN_in_equity_curve
                             | Some eq \<Rightarrow>
                                 finish_run df start_index initial_capital trades_df eq)))))"

section \<open>core/backtest_engine.py: run_legacy_backtest\<close>

text \<open>A parameter tuple: fast window, slow window, volatility window, stop multiplier.\<close>

type_synonym params = "nat \<times> nat \<times> nat \<times> real"

record lposition =
  l_in_pos :: bool
  l_entry :: real
  l_stop :: real
  l_qty :: real
  l_value :: real
  l_params :: "params option"
  l_entry_time :: "ts option"

record legacy_trade = trade +
  l_pos :: lposition

text \<open>
  The strategy object of the legacy mode, with its own state \<open>'s\<close> (the memory of
  parameter tuples and the random source) and the optimizer arrays \<open>'o\<close>.  Reading the
  volatility array of a window that was not computed raises \<open>KeyError\<close>; a
  re-optimisation interval of zero raises \<open>ZeroDivisionError\<close> at the modulo of line 58.
\<close>

record ('s, 'o) legacy_strategy =
  ls_optimize :: "nat \<Rightarrow> real list \<Rightarrow> 'o \<Rightarrow> 's \<Rightarrow> 's"
  ls_get_entry_signal :: "nat \<Rightarrow> 's \<Rightarrow> params option \<times> 's"
  ls_update_trailing_stop :: "nat \<Rightarrow> real \<Rightarrow> lposition \<Rightarrow> lposition"
  ls_get_exit_signal :: "nat \<Rightarrow> real \<Rightarrow> lposition \<Rightarrow> string option"
  ls_atr :: "nat \<Rightarrow> nat \<Rightarrow> real option option"

definition flat_lposition :: lposition where
  "flat_lposition =
     \<lparr> l_in_pos = False, l_entry = 0, l_stop = 0, l_qty = 0, l_value = 0, l_params = None,
       l_entry_time = None \<rparr>"

record 's legacy_state =
  ll_cash :: real
  ll_equity :: real
  ll_position :: lposition
  ll_trades :: "legacy_trade list"
  ll_equity_curve :: "real list"
  ll_strategy :: 's

definition legacy_exit_phase ::
  "('s, 'o) legacy_strategy \<Rightarrow> ts \<Rightarrow> nat \<Rightarrow> real \<Rightarrow> 's legacy_state \<Rightarrow> 's legacy_state" where
  "legacy_exit_phase strategy t i price s =
     (if l_in_pos (ll_position s) then
        let position1 = ls_update_trailing_stop strategy i price (ll_position s);
            reason = ls_get_exit_signal strategy i price position1
        in if truthy_reason reason then
             let proceeds = l_qty position1 * price;
                 pnl_val = proceeds - l_value position1;
                 trade_log =
                   \<lparr> exit_time = t, exit_price = price,
                     pnl_percent = (if 0 < l_value position1 then pnl_val / l_value position1 * 100 else 0),
                     pnl_value = pnl_val, exit_reason = the reason, l_pos = position1 \<rparr>
             in s\<lparr> ll_trades := ll_trades s @ [trade_log], ll_cash := proceeds,
                   ll_equity := proceeds, ll_position := flat_lposition \<rparr>
           else s\<lparr> ll_position := position1 \<rparr>
      else s)"

definition legacy_entry_phase ::
  "('s, 'o) legacy_strategy \<Rightarrow> ts \<Rightarrow> nat \<Rightarrow> real \<Rightarrow> 's legacy_state
     \<Rightarrow> error + 's legacy_state" where
  "legacy_entry_phase strategy t i price s =
     (if \<not> l_in_pos (ll_position s) then
        (case ls_get_entry_signal strategy i (ll_strategy s) of
           (entry_params, st) \<Rightarrow>
             let s1 = s\<lparr> ll_strategy := st \<rparr>
             in (case entry_params of
                   Some (fma, sma, atr_len, mult) \<Rightarrow>
                     if 0 < ll_cash s1 then
                       (case ls_atr strategy atr_len i of
                          None \<Rightarrow> Inl KeyError
                        | Some None \<Rightarrow> Inr s1
                        | Some (Some atr_val) \<Rightarrow>
                            let stop_p = price - atr_val * mult
                            in if stop_p < price
                               then Inr (s1\<lparr> ll_position :=
                                              \<lparr> l_in_pos = True, l_entry = price, l_stop = stop_p,
                                                l_qty = ll_cash s1 / price, l_value = ll_cash s1,
                                                l_params = entry_params, l_entry_time = Some t \<rparr>,
                                            ll_cash := 0 \<rparr>)
                               else Inr s1)
                     else Inr s1
                 | None \<Rightarrow> Inr s1))
      else Inr s)"

definition legacy_step ::
  "('s, 'o) legacy_strategy \<Rightarrow> dataframe \<Rightarrow> 'o \<Rightarrow> nat \<Rightarrow> nat \<Rightarrow> nat
     \<Rightarrow> error + 's legacy_state \<Rightarrow> error + 's legacy_state" where
  "legacy_step strategy df optimizer_arrays reoptimize_every start_index i r =
     (case r of
        Inl e \<Rightarrow> Inl e
      | Inr s \<Rightarrow>
          if reoptimize_every = 0 then Inl ZeroDivisionError
          else
            let s0 = (if (i - start_index) mod reoptimize_every = 0
                      then s\<lparr> ll_strategy :=
                                ls_optimize strategy i (map c_close df) optimizer_arrays (ll_strategy s) \<rparr>
                      else s);
                price = c_close (df ! i);
                t = c_ts (df ! i);
                s1 = legacy_exit_phase strategy t i price s0
            in (case legacy_entry_phase strategy t i price s1 of
                  Inl e \<Rightarrow> Inl e
                | Inr s2 \<Rightarrow>
                    let current_value =
                          (if l_in_pos (ll_position s2) then l_qty (ll_position s2) * price
                           else ll_cash s2)
                    in Inr (s2\<lparr> ll_equity_curve :=
                                 (ll_equity_curve s2)[i - start_index := current_value] \<rparr>)))"

definition run_legacy_backtest ::
  "dataframe \<Rightarrow> ('s, 'o) legacy_strategy \<Rightarrow> 's \<Rightarrow> 'c config_scheme \<Rightarrow> 'o
     \<Rightarrow> error + legacy_trade run_result" where
  "run_legacy_backtest df strategy st0 config optimizer_arrays =
     (let initial_capital = INITIAL_CAPITAL config;
          reoptimize_every = REOPTIMIZE_EVERY config
      in case snd (get_start_index df config) of
           None \<Rightarrow> Inr empty_result
         | Some start_index \<Rightarrow>
             if length df \<le> start_index then Inr empty_result
             else
               (case fold (legacy_step strategy df optimizer_arrays reoptimize_every start_index)
                       [start_index ..< length df]
                       (Inr \<lparr> ll_cash = initial_capital, ll_equity = initial_capital,
                              ll_position = flat_lposition, ll_trades = [],
                              ll_equity_curve = replicate (length df - start_index) initial_capital,
                              ll_strategy = st0 \<rparr>) of
                  Inl e \<Rightarrow> Inl e
                | Inr s \<Rightarrow>
                    finish_run df start_index initial_capital (ll_trades s)
                      (zip (map c_ts (drop start_index df)) (ll_equity_curve s))))"

text \<open>
  A configuration without a warmup entry, so that the default of 200 candles applies, and
  a series of three daily candles.
\<close>

definition three_candles :: dataframe where
  "three_candles =
     [\<lparr> c_ts = 0, c_open = 100, c_high = 101, c_low = 99, c_close = 100, c_volume = 1 \<rparr>,
      \<lparr> c_ts = 86400, c_open = 100, c_high = 102, c_low = 100, c_close = 101, c_volume = 1 \<rparr>,
      \<lparr> c_ts = 172800, c_open = 101, c_high = 103, c_low = 100, c_close = 102, c_volume = 1 \<rparr>]"

definition short_config :: config where
  "short_config =
     \<lparr> INITIAL_CAPITAL = 1000, BACKTEST_START_DATE = 0, TECHNICAL_WARMUP_PERIOD = None,
       REOPTIMIZE_EVERY = 10, OPTIMIZATION_LOOKBACK = 50, TRAIL_TRIGGER_MULT = 1 \<rparr>"

section \<open>strategies/dynamic_momentum_optimizer.py\<close>

subsection \<open>The parameter scorer\<close>

text \<open>
  Reading a compiled (numba) array: a negative position wraps around once, as the start of
  the look-back window \<open>i - OPTIMIZATION_LOOKBACK\<close> can be negative.  A position outside the
  array is not checked by the compiled code; the model stops with \<open>IndexError\<close> there.
\<close>

definition nb_get :: "'a list \<Rightarrow> int \<Rightarrow> error + 'a" where
  "nb_get arr i = py_index arr i"

record score_state =
  gp :: real
  gl :: real
  sc_in_pos :: bool
  sc_entry :: real
  sc_stop :: real

text \<open>
  Lines 16 to 18: the five indicator reads, in the order of the \<open>or\<close> chain, which stops
  at the first not-a-number.  \<open>Inr None\<close> is the \<open>continue\<close>.
\<close>

definition score_reads ::
  "real option list \<Rightarrow> real option list \<Rightarrow> real option list \<Rightarrow> int
     \<Rightarrow> error + (real \<times> real \<times> real \<times> real \<times> real) option" where
  "score_reads fma sma atr i =
     (case nb_get fma i of Inl e \<Rightarrow> Inl e | Inr None \<Rightarrow> Inr None | Inr (Some f1) \<Rightarrow>
      case nb_get sma i of Inl e \<Rightarrow> Inl e | Inr None \<Rightarrow> Inr None | Inr (Some s1) \<Rightarrow>
      case nb_get fma (i - 1) of Inl e \<Rightarrow> Inl e | Inr None \<Rightarrow> Inr None | Inr (Some f0) \<Rightarrow>
      case nb_get sma (i - 1) of Inl e \<Rightarrow> Inl e | Inr None \<Rightarrow> Inr None | Inr (Some s0) \<Rightarrow>
      case nb_get atr i of Inl e \<Rightarrow> Inl e | Inr None \<Rightarrow> Inr None | Inr (Some a) \<Rightarrow>
      Inr (Some (f1, s1, f0, s0, a)))"

text \<open>Lines 27 to 29: the trailing stop of the simplified system.\<close>

definition score_trail :: "real \<Rightarrow> real \<Rightarrow> real \<Rightarrow> real \<Rightarrow> score_state \<Rightarrow> score_state" where
  "score_trail price a mult trail_trigger_mult s =
     (if a * mult * trail_trigger_mult < price - sc_entry s then
        let new_stop = price - a * mult
        in if sc_stop s < new_stop then s\<lparr> sc_stop := new_stop \<rparr> else s
      else s)"

text \<open>Lines 30 to 34.  The compiled division raises \<open>ZeroDivisionError\<close> for an entry at zero.\<close>

definition score_exit :: "real \<Rightarrow> bool \<Rightarrow> score_state \<Rightarrow> error + score_state" where
  "score_exit price death s =
     (if price < sc_stop s \<or> death then
        if sc_entry s = 0 then Inl ZeroDivisionError
        else
          let pnl = (price - sc_entry s) / sc_entry s
          in Inr ((if 0 < pnl then s\<lparr> gp := gp s + pnl \<rparr> else s\<lparr> gl := gl s - pnl \<rparr>)
                    \<lparr> sc_in_pos := False \<rparr>)
      else Inr s)"

definition score_step ::
  "real option list \<Rightarrow> real option list \<Rightarrow> real option list \<Rightarrow> real list \<Rightarrow> real \<Rightarrow> real
     \<Rightarrow> int \<Rightarrow> error + score_state \<Rightarrow> error + score_state" where
  "score_step fma sma atr close mult trail_trigger_mult i r =
     (case r of
        Inl e \<Rightarrow> Inl e
      | Inr s \<Rightarrow>
          (case score_reads fma sma atr i of
             Inl e \<Rightarrow> Inl e
           | Inr None \<Rightarrow> Inr s
           | Inr (Some (f1, s1, f0, s0, a)) \<Rightarrow>
               (case nb_get close i of
                  Inl e \<Rightarrow> Inl e
                | Inr price \<Rightarrow>
                    let gold = (f0 < s0 \<and> s1 < f1); death = (s0 < f0 \<and> f1 < s1)
                    in if \<not> sc_in_pos s \<and> gold
                       then Inr (s\<lparr> sc_in_pos := True, sc_entry := price,
                                    sc_stop := price - a * mult \<rparr>)
                       else if sc_in_pos s
                       then score_exit price death (score_trail price a mult trail_trigger_mult s)
                       else Inr s)))"

definition score_init :: score_state where
  "score_init = \<lparr> gp = 0, gl = 0, sc_in_pos = False, sc_entry = 0, sc_stop = 0 \<rparr>"

text \<open>\<open>range(start + 1, end)\<close> over Python integers.\<close>

definition py_range :: "int \<Rightarrow> int \<Rightarrow> int list" where
  "py_range a b = [a .. b - 1]"

definition score_loop ::
  "real option list \<Rightarrow> real option list \<Rightarrow> real option list \<Rightarrow> real list \<Rightarrow> real \<Rightarrow> real
     \<Rightarrow> int \<Rightarrow> int \<Rightarrow> error + score_state" where
  "score_loop fma sma atr close mult trail_trigger_mult start end' =
     fold (score_step fma sma atr close mult trail_trigger_mult) (py_range (start + 1) end')
       (Inr score_init)"

text \<open>Line 35.\<close>

definition score_of :: "score_state \<Rightarrow> real" where
  "score_of s = (if 0 < gl s then gp s / gl s else if 0 < gp s then gp s * 1000 else 0)"

definition score_one ::
  "real option list \<Rightarrow> real option list \<Rightarrow> real option list \<Rightarrow> real list \<Rightarrow> real \<Rightarrow> real
     \<Rightarrow> int \<Rightarrow> int \<Rightarrow> error + real" where
  "score_one fma sma atr close mult trail_trigger_mult start end' =
     (case score_loop fma sma atr close mult trail_trigger_mult start end' of
        Inl e \<Rightarrow> Inl e
      | Inr s \<Rightarrow> Inr (score_of s))"

fun collect :: "(error + 'a) list \<Rightarrow> error + 'a list" where
  "collect [] = Inr []"
| "collect (Inl e # rs) = Inl e"
| "collect (Inr x # rs) = (case collect rs of Inl e \<Rightarrow> Inl e | Inr xs \<Rightarrow> Inr (x # xs))"

text \<open>
  \<open>_score_params_numba\<close>: one score for every tuple \<open>k\<close> of the grid, each from its own
  row of the three indicator tables.  The window columns of the grid are not read.
\<close>

definition score_params_numba ::
  "nat list \<Rightarrow> nat list \<Rightarrow> nat list \<Rightarrow> real list
     \<Rightarrow> real option list list \<Rightarrow> real option list list \<Rightarrow> real option list list
     \<Rightarrow> real list \<Rightarrow> int \<Rightarrow> int \<Rightarrow> real \<Rightarrow> error + real list" where
  "score_params_numba fma_g sma_g atr_g mult_g fma_a sma_a atr_a close start end' trail_trigger_mult =
     collect (map (\<lambda>k. score_one (fma_a ! k) (sma_a ! k) (atr_a ! k) close (mult_g ! k)
                          trail_trigger_mult start end')
                [0 ..< length fma_g])"

text \<open>
  Two three-candle windows for one tuple: a bullish cross at the second candle, a
  bearish cross at the third, a volatility of 1 throughout.
\<close>

definition cross_fma :: "real option list" where "cross_fma = [Some 1, Some 3, Some 1]"
definition cross_sma :: "real option list" where "cross_sma = [Some 2, Some 2, Some 2]"
definition cross_atr :: "real option list" where "cross_atr = [Some 1, Some 1, Some 1]"

text \<open>The state of the simplified system after its entry at 10 with the stop at 9.\<close>

definition held_state :: score_state where
  "held_state = \<lparr> gp = 0, gl = 0, sc_in_pos = True, sc_entry = 10, sc_stop = 9 \<rparr>"

subsection \<open>The legacy strategy: trailing stop and exit\<close>

text \<open>
  \<open>self.indicators\<close> restricted to the arrays the two methods read, by window length.
\<close>

record dmo_indicators =
  ind_atr :: "nat \<rightharpoonup> real option list"
  ind_slope :: "nat \<rightharpoonup> real option list"

definition dmo_update_trailing_stop ::
  "'c config_scheme \<Rightarrow> dmo_indicators \<Rightarrow> nat \<Rightarrow> real \<Rightarrow> lposition \<Rightarrow> lposition" where
  "dmo_update_trailing_stop cfg ind i price position0 =
     (case l_params position0 of
        None \<Rightarrow> position0
      | Some (fma, sma, atr_len, mult) \<Rightarrow>
          (case ind_atr ind atr_len of
             None \<Rightarrow> position0
           | Some atr_array \<Rightarrow>
               if i < length atr_array then
                 (case atr_array ! i of
                    None \<Rightarrow> position0
                  | Some atr_val \<Rightarrow>
                      if atr_val * mult * TRAIL_TRIGGER_MULT cfg < price - l_entry position0 then
                        let new_stop = price - atr_val * mult
                        in if l_stop position0 < new_stop
                           then position0\<lparr> l_stop := new_stop \<rparr> else position0
                      else position0)
               else position0))"

text \<open>The updates of a run of candles, each given by its index and its close.\<close>

definition trail_over ::
  "'c config_scheme \<Rightarrow> dmo_indicators \<Rightarrow> (nat \<times> real) list \<Rightarrow> lposition \<Rightarrow> lposition" where
  "trail_over cfg ind candles position0 =
     fold (\<lambda>(i, price). dmo_update_trailing_stop cfg ind i price) candles position0"

text \<open>
  \<open>get_exit_signal\<close>.  The slope arrays are read without a test for not-a-number;
  a comparison with one is false.  A missing array raises \<open>KeyError\<close>, a read outside
  an array \<open>IndexError\<close>; the second comparison of the \<open>and\<close> is only evaluated when
  the first holds.
\<close>

definition lt_nan :: "real option \<Rightarrow> real option \<Rightarrow> bool" where
  "lt_nan a b = (case (a, b) of (Some x, Some y) \<Rightarrow> x < y | _ \<Rightarrow> False)"

definition stop_or_none :: "real \<Rightarrow> lposition \<Rightarrow> string option" where
  "stop_or_none price position0 =
     (if price < l_stop position0 then Some ''Stop Loss'' else None)"

definition dmo_get_exit_signal ::
  "dmo_indicators \<Rightarrow> nat \<Rightarrow> real \<Rightarrow> lposition \<Rightarrow> error + string option" where
  "dmo_get_exit_signal ind i price position0 =
     (case l_params position0 of
        None \<Rightarrow> Inr (Some ''Error'')
      | Some (fma, sma, atr_len, mult) \<Rightarrow>
          (case (ind_slope ind fma, ind_slope ind sma) of
             (Some fcol, Some scol) \<Rightarrow>
               (case (py_index fcol (int i - 1), py_index scol (int i - 1)) of
                  (Inr f0, Inr s0) \<Rightarrow>
                    if lt_nan s0 f0 then
                      (case (py_index fcol (int i), py_index scol (int i)) of
                         (Inr f1, Inr s1) \<Rightarrow>
                           if lt_nan f1 s1 then Inr (Some ''Signal Cross'')
                           else Inr (stop_or_none price position0)
                       | _ \<Rightarrow> Inl IndexError)
                    else Inr (stop_or_none price position0)
                | _ \<Rightarrow> Inl IndexError)
           | _ \<Rightarrow> Inl KeyError))"

text \<open>A position opened at 100 with its stop at 95, and a volatility array for window 14.\<close>

definition long_position :: lposition where
  "long_position =
     \<lparr> l_in_pos = True, l_entry = 100, l_stop = 95, l_qty = 10, l_value = 1000,
       l_params = Some (10, 30, 14, 2), l_entry_time = Some 0 \<rparr>"

definition atr14 :: dmo_indicators where
  "atr14 = \<lparr> ind_atr = [14 \<mapsto> [Some 2, Some 2, None, Some 1]], ind_slope = Map.empty \<rparr>"

text \<open>
  A legacy strategy that never enters, with the trailing stop of the optimizer; enough to
  run the legacy loop.
\<close>

definition idle_legacy :: "(unit, unit) legacy_strategy" where
  "idle_legacy =
     \<lparr> ls_optimize = (\<lambda>i close arrays st. st),
       ls_get_entry_signal = (\<lambda>i st. (None, st)),
       ls_update_trailing_stop = dmo_update_trailing_stop short_config atr14,
       ls_get_exit_signal = (\<lambda>i price position0. None),
       ls_atr = (\<lambda>atr_len i. map_option (\<lambda>arr. arr ! i) (ind_atr atr14 atr_len)) \<rparr>"

section \<open>core/indicators.py: the moving averages\<close>

text \<open>
  An array entry is a number or the not-a-number marker.  Arithmetic with the marker
  gives the marker.  Window lengths are natural numbers.
\<close>

type_synonym float = "real option"

definition fadd :: "float \<Rightarrow> float \<Rightarrow> float" where
  "fadd x y = (case (x, y) of (Some a, Some b) \<Rightarrow> Some (a + b) | _ \<Rightarrow> None)"

definition fsub :: "float \<Rightarrow> float \<Rightarrow> float" where
  "fsub x y = (case (x, y) of (Some a, Some b) \<Rightarrow> Some (a - b) | _ \<Rightarrow> None)"

definition fmul :: "float \<Rightarrow> real \<Rightarrow> float" where
  "fmul x m = map_option (\<lambda>a. a * m) x"

definition fdiv :: "float \<Rightarrow> nat \<Rightarrow> float" where
  "fdiv x w = map_option (\<lambda>a. a / real w) x"

definition np_sum :: "float list \<Rightarrow> float" where
  "np_sum xs = fold (\<lambda>x acc. fadd acc x) xs (Some 0)"

text \<open>
  \<open>np.empty(n)\<close> hands out \<open>n\<close> cells with whatever the memory held; \<open>uninit\<close> is that
  content.  \<open>out[:k] = np.nan\<close> overwrites the first \<open>k\<close> cells, or all of them.
\<close>

definition np_empty :: "(nat \<Rightarrow> float) \<Rightarrow> nat \<Rightarrow> float list" where
  "np_empty uninit n = map uninit [0 ..< n]"

definition set_nan_prefix :: "float list \<Rightarrow> nat \<Rightarrow> float list" where
  "set_nan_prefix out k = replicate (min k (length out)) None @ drop k out"

text \<open>
  \<open>_sma_numba\<close>.  A window of zero divides by zero.  With a window longer than the array
  the compiled code writes \<open>out[w-1]\<close> outside the array, which numba does not check; the
  model stops with \<open>IndexError\<close> there.
\<close>

definition sma_step :: "float list \<Rightarrow> nat \<Rightarrow> nat \<Rightarrow> float \<times> float list \<Rightarrow> float \<times> float list" where
  "sma_step arr w i st =
     (case st of
        (current_sum, out) \<Rightarrow>
          let current_sum' = fadd current_sum (fsub (arr ! i) (arr ! (i - w)))
          in (current_sum', out[i := fdiv current_sum' w]))"

definition sma_numba :: "(nat \<Rightarrow> float) \<Rightarrow> float list \<Rightarrow> nat \<Rightarrow> error + float list" where
  "sma_numba uninit arr w =
     (let n = length arr
      in if w = 0 then Inl ZeroDivisionError
         else if n < w then Inl IndexError
         else
           let out0 = set_nan_prefix (np_empty uninit n) (w - 1);
               current_sum = np_sum (take w arr);
               out1 = out0[w - 1 := fdiv current_sum w]
           in Inr (snd (fold (sma_step arr w) [w ..< n] (current_sum, out1))))"

text \<open>\<open>_ema_numba\<close>, with the same two stops; the mean of an empty slice divides by its size.\<close>

definition ema_step :: "float list \<Rightarrow> real \<Rightarrow> nat \<Rightarrow> float list \<Rightarrow> float list" where
  "ema_step arr multiplier i out =
     out[i := fadd (fmul (fsub (arr ! i) (out ! (i - 1))) multiplier) (out ! (i - 1))]"

definition ema_numba :: "(nat \<Rightarrow> float) \<Rightarrow> float list \<Rightarrow> nat \<Rightarrow> error + float list" where
  "ema_numba uninit arr w =
     (let n = length arr
      in if w = 0 then Inl ZeroDivisionError
         else if n < w then Inl IndexError
         else
           let out0 = set_nan_prefix (np_empty uninit n) (w - 1);
               multiplier = 2 / (real w + 1);
               out1 = out0[w - 1 := fdiv (np_sum (take w arr)) w]
           in Inr (fold (ema_step arr multiplier) [w ..< n] out1))"

text \<open>The claim of the specification about one output array, for a window \<open>w\<close>.\<close>

definition warmup_shape :: "nat \<Rightarrow> nat \<Rightarrow> float list \<Rightarrow> bool" where
  "warmup_shape w n out \<longleftrightarrow>
     length out = n \<and> (\<forall>i < w - 1. out ! i = None) \<and> (\<forall>i. w - 1 \<le> i \<and> i < n \<longrightarrow> out ! i \<noteq> None)"

text \<open>Two contents of fresh memory, and an array that starts with a not-a-number.\<close>

definition zeros :: "nat \<Rightarrow> float" where "zeros i = Some 0"
definition junk :: "nat \<Rightarrow> float" where "junk i = (if even i then None else Some 7)"

definition nan_first :: "float list" where "nan_first = [None, Some 1, Some 2]"

section \<open>core/engine_runner.py: _aggregate_curves\<close>

text \<open>
  \<open>pd.concat(deltas, axis=1)\<close> aligns the series on the union of their timestamps, in
  ascending order; a series without a row at a timestamp has a not-a-number there.  The
  frame is held by columns, one per series.
\<close>

definition concat_index :: "series list \<Rightarrow> ts list" where
  "concat_index ss = sort (remdups (concat (map (map fst) ss)))"

definition column :: "ts list \<Rightarrow> series \<Rightarrow> float list" where
  "column idx s = map (map_of s) idx"

text \<open>\<open>ffill\<close> down one column: a not-a-number takes the last value above it, if any.\<close>

fun ffill :: "float \<Rightarrow> float list \<Rightarrow> float list" where
  "ffill prev [] = []"
| "ffill prev (x # xs) =
     (let cur = (case x of None \<Rightarrow> prev | Some v \<Rightarrow> Some v) in cur # ffill cur xs)"

definition fillna0 :: "float \<Rightarrow> real" where
  "fillna0 x = (case x of None \<Rightarrow> 0 | Some v \<Rightarrow> v)"

definition aggregate_curves :: "series list \<Rightarrow> real \<Rightarrow> real \<Rightarrow> series" where
  "aggregate_curves series_list initial_capital_per_test total_initial_capital =
     (if series_list = [] then []
      else
        let deltas = map (map (\<lambda>r. (fst r, snd r - initial_capital_per_test))) series_list;
            idx = concat_index deltas;
            combined_deltas_df = map (column idx) deltas;
            filled_deltas_df = map (\<lambda>col. map fillna0 (ffill None col)) combined_deltas_df;
            total_delta_series =
              map (\<lambda>j. sum_list (map (\<lambda>col. col ! j) filled_deltas_df)) [0 ..< length idx]
        in zip idx (map (\<lambda>d. d + total_initial_capital) total_delta_series))"

text \<open>
  Lines 131 to 139 of \<open>_aggregate_and_save_report\<close>: the baseline is the per-test capital
  times the number of curves.
\<close>

definition portfolio_equity :: "series list \<Rightarrow> 'c config_scheme \<Rightarrow> series" where
  "portfolio_equity curves config =
     aggregate_curves curves (INITIAL_CAPITAL config)
       (INITIAL_CAPITAL config * real (length curves))"

text \<open>
  The specification's reading of one curve at a timestamp \<open>t\<close>: its value at its latest
  row not after \<open>t\<close>, less the capital \<open>C\<close>; nothing before its first row.
\<close>

definition asof :: "series \<Rightarrow> ts \<Rightarrow> float" where
  "asof s t =
     (let rs = filter (\<lambda>r. fst r \<le> t) s in if rs = [] then None else Some (snd (last rs)))"

definition held_delta :: "series \<Rightarrow> real \<Rightarrow> ts \<Rightarrow> real" where
  "held_delta s C t = (case asof s t of None \<Rightarrow> 0 | Some v \<Rightarrow> v - C)"

definition ascending :: "series \<Rightarrow> bool" where
  "ascending s \<longleftrightarrow> sorted (map fst s) \<and> distinct (map fst s)"

text \<open>Two daily curves that start at 1000; the second ends a day earlier.\<close>

definition curve_a :: series where
  "curve_a = [(0, 1000), (86400, 1050), (172800, 1100)]"

definition curve_b :: series where
  "curve_b = [(0, 1000), (86400, 900)]"

section \<open>Auxiliary notions of the proofs\<close>

text \<open>The two sums of the scorer are not negative, in a state that is not an error.\<close>

definition nonneg_sums :: "error + score_state \<Rightarrow> bool" where
  "nonneg_sums r = (case r of Inl e \<Rightarrow> True | Inr s \<Rightarrow> 0 \<le> gp s \<and> 0 \<le> gl s)"

text \<open>The array after the seed value is written: the same for every content of fresh memory.\<close>

definition seeded :: "(nat \<Rightarrow> float) \<Rightarrow> nat \<Rightarrow> nat \<Rightarrow> float \<Rightarrow> float list" where
  "seeded uninit n w v = (set_nan_prefix (np_empty uninit n) (w - 1))[w - 1 := v]"

text \<open>What holds of the two output arrays once the cells below \<open>i\<close> are written.\<close>

definition written :: "nat \<Rightarrow> nat \<Rightarrow> nat \<Rightarrow> float list \<Rightarrow> float list \<Rightarrow> bool" where
  "written w n i out out' \<longleftrightarrow>
     length out = n \<and> length out' = n \<and> (\<forall>j < i. out ! j = out' ! j)
     \<and> (\<forall>j < w - 1. out ! j = None) \<and> (\<forall>j. w - 1 \<le> j \<and> j < i \<longrightarrow> out ! j \<noteq> None)"

text \<open>The last value a column shows along a list of timestamps, starting from \<open>prev\<close>.\<close>

definition seen :: "(ts \<Rightarrow> float) \<Rightarrow> float \<Rightarrow> ts list \<Rightarrow> float" where
  "seen f prev us = fold (\<lambda>u acc. case f u of None \<Rightarrow> acc | Some v \<Rightarrow> Some v) us prev"

section \<open>Statistics\<close>

lemma sum_list_nonpos:
  fixes xs :: "real list"
  shows "(\<forall>x\<in>set xs. x \<le> 0) \<Longrightarrow> sum_list xs \<le> 0"
  by (induction xs) auto

lemma sum_list_neg_member:
  fixes xs :: "real list"
  assumes "\<forall>x\<in>set xs. x \<le> 0" and "y \<in> set xs" and "y < 0"
  shows "sum_list xs < 0"
  using assms
proof (induction xs)
  case Nil
  then show ?case by simp
next
  case (Cons x xs)
  have rest: "sum_list xs \<le> 0"
    using Cons.prems(1) by (simp add: sum_list_nonpos)
  show ?case
  proof (cases "y = x")
    case True
    with Cons.prems(3) rest show ?thesis by simp
  next
    case False
    with Cons.prems have "y \<in> set xs" by simp
    with Cons have "sum_list xs < 0" by simp
    moreover have "x \<le> 0" using Cons.prems(1) by simp
    ultimately show ?thesis by simp
  qed
qed

lemma sum_list_all_zero:
  fixes xs :: "real list"
  assumes "\<forall>x\<in>set xs. x \<le> 0" and "\<forall>x\<in>set xs. 0 \<le> x"
  shows "sum_list xs = 0"
  using assms by (induction xs) auto

lemma losses_sum_zero_iff:
  "sum_list (map pnl_value (losses trades_df)) = 0 \<longleftrightarrow> (\<forall>t\<in>set trades_df. 0 \<le> pnl_value t)"
proof
  assume z: "sum_list (map pnl_value (losses trades_df)) = 0"
  show "\<forall>t\<in>set trades_df. 0 \<le> pnl_value t"
  proof (rule ccontr)
    assume "\<not> (\<forall>t\<in>set trades_df. 0 \<le> pnl_value t)"
    then obtain t where t: "t \<in> set trades_df" "pnl_value t < 0" by force
    then have "pnl_value t \<in> set (map pnl_value (losses trades_df))"
      by (auto simp: losses_def)
    moreover have "\<forall>x\<in>set (map pnl_value (losses trades_df)). x \<le> 0"
      by (auto simp: losses_def)
    ultimately have "sum_list (map pnl_value (losses trades_df)) < 0"
      using t(2) sum_list_neg_member by blast
    with z show False by simp
  qed
next
  assume "\<forall>t\<in>set trades_df. 0 \<le> pnl_value t"
  then show "sum_list (map pnl_value (losses trades_df)) = 0"
    by (intro sum_list_all_zero) (auto simp: losses_def)
qed

text \<open>
  C9.  With an empty trade list or an empty equity curve the statistics calculator
  returns a record, not an error: no trades, zero total return, zero drawdown, zero
  Sharpe and Sortino ratios, zero win rate, profit factor and average P&L, no exit
  reasons, and a final capital equal to the initial capital.  The period fields and the
  rounded benchmark return are passed through from the arguments.
\<close>

theorem calculate_stats_empty_defaults:
  assumes "trades_df = [] \<or> equity_curve = []"
  shows "\<exists>r. calculate_stats trades_df equity_curve initial_capital start_date end_date bh_return = Inr r
           \<and> Total_Trades r = 0 \<and> Total_Return_pct r = 0 \<and> Max_Drawdown_pct r = 0
           \<and> Sharpe_Ratio r = Some 0 \<and> Sortino_Ratio r = Some 0 \<and> Win_Rate_pct r = 0
           \<and> Profit_Factor r = Fin 0 \<and> Avg_Trade_PnL_pct r = 0 \<and> Avg_Win_PnL_pct r = 0
           \<and> Avg_Loss_PnL_pct r = 0 \<and> Exit_Reason_Counts r = Map.empty
           \<and> Final_Capital r = initial_capital \<and> Initial_Capital r = initial_capital
           \<and> Start_Period r = start_date \<and> End_Period r = end_date
           \<and> Duration_days r = duration start_date end_date
           \<and> Buy_and_Hold_pct r = (case bh_return of Some b \<Rightarrow> round2 b | None \<Rightarrow> 0)"
  using assms unfolding calculate_stats_def by auto

theorem calculate_stats_empty_defaults_witness:
  "\<exists>r. calculate_stats
          [\<lparr>exit_time = 7, exit_price = 11, pnl_percent = 10, pnl_value = 100,
            exit_reason = ''Stop Loss''\<rparr>] [] 1000 None None None = Inr r
       \<and> Total_Trades r = 0 \<and> Profit_Factor r = Fin 0 \<and> Final_Capital r = 1000
       \<and> Exit_Reason_Counts r = Map.empty \<and> Duration_days r = 0 \<and> Buy_and_Hold_pct r = 0"
  using calculate_stats_empty_defaults
    [of "[\<lparr>exit_time = 7, exit_price = 11, pnl_percent = 10, pnl_value = 100,
            exit_reason = ''Stop Loss''\<rparr>]" "[]" 1000 None None None]
  by (auto simp: duration_def)

lemma profit_factor_infinite_iff:
  "profit_factor trades_df = PInf \<longleftrightarrow> (\<forall>t\<in>set trades_df. 0 \<le> pnl_value t)"
  using losses_sum_zero_iff [of trades_df] by (simp add: profit_factor_def)

lemma profit_factor_finite:
  assumes "\<exists>t\<in>set trades_df. pnl_value t < 0"
  shows "profit_factor trades_df =
          Fin (sum_list (map pnl_value (filter (\<lambda>t. 0 < pnl_value t) trades_df))
               / \<bar>sum_list (map pnl_value (filter (\<lambda>t. pnl_value t \<le> 0) trades_df))\<bar>)"
proof -
  from assms have "\<not> (\<forall>t\<in>set trades_df. 0 \<le> pnl_value t)" by force
  then have "sum_list (map pnl_value (losses trades_df)) \<noteq> 0"
    using losses_sum_zero_iff [of trades_df] by simp
  then show ?thesis by (simp add: profit_factor_def wins_def losses_def)
qed

lemma xround2_infinite: "xround2 x = PInf \<longleftrightarrow> x = PInf"
  by (cases x) (simp_all add: xround2_def)

lemma calculate_stats_profit_factor:
  assumes "trades_df \<noteq> []" and "equity_curve \<noteq> []"
  shows "\<exists>r. calculate_stats trades_df equity_curve initial_capital (Some sd) (Some ed) (Some bh)
              = Inr r
           \<and> Profit_Factor r = xround2 (profit_factor trades_df)"
  using assms by (simp add: calculate_stats_def Let_def)

text \<open>
  C4, as the code has it.  For every non-empty trade list the statistics calculator
  reports, next to a non-empty equity curve, the profit factor of line 15 rounded to two
  decimals (next to an empty curve the guard of line 8 reports 0).  That profit factor
  is +infinity exactly when no trade has a negative P&L, whether or not a winning trade
  exists; so a list of trades that all closed at zero P&L has an infinite profit factor.
  Whenever some trade has a negative P&L it is the finite number: sum of the positive
  P&Ls divided by the absolute sum of the non-positive ones.
\<close>

theorem profit_factor_infinite_iff_no_negative:
  assumes "trades_df \<noteq> []"
  shows "(equity_curve = [] \<longrightarrow>
           (\<exists>r. calculate_stats trades_df equity_curve initial_capital (Some sd) (Some ed) (Some bh)
                  = Inr r \<and> Profit_Factor r = Fin 0))
       \<and> (equity_curve \<noteq> [] \<longrightarrow>
           (\<exists>r. calculate_stats trades_df equity_curve initial_capital (Some sd) (Some ed) (Some bh)
                  = Inr r
              \<and> Profit_Factor r = xround2 (profit_factor trades_df)
              \<and> (Profit_Factor r = PInf \<longleftrightarrow> (\<forall>t\<in>set trades_df. 0 \<le> pnl_value t))
              \<and> ((\<exists>t\<in>set trades_df. pnl_value t < 0) \<longrightarrow>
                   profit_factor trades_df =
                     Fin (sum_list (map pnl_value (filter (\<lambda>t. 0 < pnl_value t) trades_df))
                          / \<bar>sum_list (map pnl_value (filter (\<lambda>t. pnl_value t \<le> 0) trades_df))\<bar>)
                   \<and> Profit_Factor r =
                     Fin (round2
                       (sum_list (map pnl_value (filter (\<lambda>t. 0 < pnl_value t) trades_df))
                        / \<bar>sum_list (map pnl_value (filter (\<lambda>t. pnl_value t \<le> 0) trades_df))\<bar>)))))"
proof (intro conjI impI)
  assume "equity_curve = []"
  then show "\<exists>r. calculate_stats trades_df equity_curve initial_capital (Some sd) (Some ed) (Some bh)
                  = Inr r \<and> Profit_Factor r = Fin 0"
    by (simp add: calculate_stats_def)
next
  assume "equity_curve \<noteq> []"
  from calculate_stats_profit_factor [OF assms this, of initial_capital sd ed bh]
  obtain r where r: "calculate_stats trades_df equity_curve initial_capital (Some sd) (Some ed) (Some bh)
              = Inr r" and pf: "Profit_Factor r = xround2 (profit_factor trades_df)"
    by blast
  have inf: "Profit_Factor r = PInf \<longleftrightarrow> (\<forall>t\<in>set trades_df. 0 \<le> pnl_value t)"
    by (simp add: pf xround2_infinite profit_factor_infinite_iff)
  have fin: "profit_factor trades_df =
                     Fin (sum_list (map pnl_value (filter (\<lambda>t. 0 < pnl_value t) trades_df))
                          / \<bar>sum_list (map pnl_value (filter (\<lambda>t. pnl_value t \<le> 0) trades_df))\<bar>)
                   \<and> Profit_Factor r =
                     Fin (round2
                       (sum_list (map pnl_value (filter (\<lambda>t. 0 < pnl_value t) trades_df))
                        / \<bar>sum_list (map pnl_value (filter (\<lambda>t. pnl_value t \<le> 0) trades_df))\<bar>))"
    if "\<exists>t\<in>set trades_df. pnl_value t < 0"
    using profit_factor_finite [OF that] by (simp add: pf xround2_def)
  from r pf inf fin
  show "\<exists>r. calculate_stats trades_df equity_curve initial_capital (Some sd) (Some ed) (Some bh)
                  = Inr r
              \<and> Profit_Factor r = xround2 (profit_factor trades_df)
              \<and> (Profit_Factor r = PInf \<longleftrightarrow> (\<forall>t\<in>set trades_df. 0 \<le> pnl_value t))
              \<and> ((\<exists>t\<in>set trades_df. pnl_value t < 0) \<longrightarrow>
                   profit_factor trades_df =
                     Fin (sum_list (map pnl_value (filter (\<lambda>t. 0 < pnl_value t) trades_df))
                          / \<bar>sum_list (map pnl_value (filter (\<lambda>t. pnl_value t \<le> 0) trades_df))\<bar>)
                   \<and> Profit_Factor r =
                     Fin (round2
                       (sum_list (map pnl_value (filter (\<lambda>t. 0 < pnl_value t) trades_df))
                        / \<bar>sum_list (map pnl_value (filter (\<lambda>t. pnl_value t \<le> 0) trades_df))\<bar>)))"
    by blast
qed

text \<open>
  The witness: a gain of 5, a loss of 2 and a trade at zero, next to a curve of two days.
  The reported profit factor is 2.5.
\<close>

theorem profit_factor_infinite_iff_no_negative_witness:
  "mixed_trades \<noteq> [] \<and> two_days \<noteq> []
   \<and> (\<exists>r. calculate_stats mixed_trades two_days 1000 (Some 0) (Some 1) (Some 0) = Inr r
          \<and> Profit_Factor r = Fin (5 / 2))"
  using profit_factor_infinite_iff_no_negative [of mixed_trades two_days 1000 0 1 0]
  by (auto simp: mixed_trades_def two_days_def round2_def round_half_even_def)

text \<open>
  The claim as the specification states it fails on trades that close at exactly zero:
  for the non-empty list of one trade with zero P&L, next to a curve of two days, the
  statistics calculator reports +infinity although no trade won.
\<close>

theorem profit_factor_zero_pnl_counterexample:
  "flat_trade \<noteq> [] \<and> wins flat_trade = []
   \<and> map_sum id Profit_Factor
         (calculate_stats flat_trade two_days 1000 (Some 0) (Some 1) (Some 0)) = Inr PInf"
  by (simp add: flat_trade_def two_days_def calculate_stats_def profit_factor_def wins_def
      losses_def xround2_def Let_def)

section \<open>The generic directional simulator\<close>

lemma trades_entry_phase: "s_trades (entry_phase strategy t i price s) = s_trades s"
  by (simp add: entry_phase_def Let_def)

lemma trades_generic_step:
  "s_trades (generic_step strategy df start_index s i)
     = s_trades (exit_phase strategy (c_ts (df ! i)) i (c_close (df ! i)) s)"
  by (simp add: generic_step_def Let_def trades_entry_phase)

lemma exit_check_take_profit:
  assumes "truthy_price (get_take_profit_price strategy i p)"
    and "the (get_take_profit_price strategy i p) \<le> price"
  shows "exit_check strategy i price p = (Some ''Take Profit'', p)"
  using assms by (simp add: exit_check_def Let_def truthy_reason_def)

lemma exit_check_stop_loss:
  assumes "\<not> (truthy_price (get_take_profit_price strategy i p)
              \<and> the (get_take_profit_price strategy i p) \<le> price)"
    and "price \<le> stop_price (update_trailing_stop strategy i price p)"
  shows "exit_check strategy i price p
           = (Some ''Stop Loss'', update_trailing_stop strategy i price p)"
  using assms by (auto simp: exit_check_def Let_def truthy_reason_def)

lemma exit_check_signal:
  assumes "\<not> (truthy_price (get_take_profit_price strategy i p)
              \<and> the (get_take_profit_price strategy i p) \<le> price)"
    and "\<not> price \<le> stop_price (update_trailing_stop strategy i price p)"
  shows "exit_check strategy i price p
           = (get_exit_signal strategy i (update_trailing_stop strategy i price p),
              update_trailing_stop strategy i price p)"
  using assms by (auto simp: exit_check_def Let_def truthy_reason_def)

lemma trades_exit_phase:
  assumes "in_pos (s_position s)"
    and "exit_check strategy i price (s_position s) = (r, p1)"
  shows "map exit_reason (s_trades (exit_phase strategy t i price s))
           = (if truthy_reason r then map exit_reason (s_trades s) @ [the r]
              else map exit_reason (s_trades s))"
  using assms by (simp add: exit_phase_def close_position_def Let_def)

text \<open>
  C1, as the code has it.  On a candle with an open position the take-profit test comes
  first and fires when the strategy gives a take-profit price that Python counts as
  true (neither \<open>None\<close> nor \<open>0.0\<close>) and the close has reached it: the trade is logged
  with reason "Take Profit", whatever the stop or the strategy's signal say.  Otherwise
  the trailing stop is updated and a close at or below the updated stop logs
  "Stop Loss", whatever the signal says.  Only when neither fired is the strategy's exit
  signal consulted; it logs a trade when it is a non-empty reason and nothing otherwise.
\<close>

theorem generic_exit_order:
  assumes "in_pos (s_position s)"
    and "price = c_close (df ! i)"
    and "tp = get_take_profit_price strategy i (s_position s)"
    and "p1 = update_trailing_stop strategy i price (s_position s)"
    and "s' = generic_step strategy df start_index s i"
  shows "(truthy_price tp \<and> the tp \<le> price \<longrightarrow>
            map exit_reason (s_trades s') = map exit_reason (s_trades s) @ [''Take Profit''])
       \<and> (\<not> (truthy_price tp \<and> the tp \<le> price) \<and> price \<le> stop_price p1 \<longrightarrow>
            map exit_reason (s_trades s') = map exit_reason (s_trades s) @ [''Stop Loss''])
       \<and> (\<not> (truthy_price tp \<and> the tp \<le> price) \<and> \<not> price \<le> stop_price p1 \<longrightarrow>
            map exit_reason (s_trades s')
              = (if truthy_reason (get_exit_signal strategy i p1)
                 then map exit_reason (s_trades s) @ [the (get_exit_signal strategy i p1)]
                 else map exit_reason (s_trades s)))"
proof (intro conjI impI)
  assume "truthy_price tp \<and> the tp \<le> price"
  then have "exit_check strategy i price (s_position s) = (Some ''Take Profit'', s_position s)"
    using assms(3) exit_check_take_profit by simp
  from trades_exit_phase [OF assms(1) this]
  show "map exit_reason (s_trades s') = map exit_reason (s_trades s) @ [''Take Profit'']"
    using assms(2,5) by (simp add: trades_generic_step truthy_reason_def)
next
  assume "\<not> (truthy_price tp \<and> the tp \<le> price) \<and> price \<le> stop_price p1"
  then have "exit_check strategy i price (s_position s) = (Some ''Stop Loss'', p1)"
    using assms(3,4) exit_check_stop_loss by simp
  from trades_exit_phase [OF assms(1) this]
  show "map exit_reason (s_trades s') = map exit_reason (s_trades s) @ [''Stop Loss'']"
    using assms(2,5) by (simp add: trades_generic_step truthy_reason_def)
next
  assume "\<not> (truthy_price tp \<and> the tp \<le> price) \<and> \<not> price \<le> stop_price p1"
  then have "exit_check strategy i price (s_position s) = (get_exit_signal strategy i p1, p1)"
    using assms(3,4) exit_check_signal by simp
  from trades_exit_phase [OF assms(1) this]
  show "map exit_reason (s_trades s')
          = (if truthy_reason (get_exit_signal strategy i p1)
             then map exit_reason (s_trades s) @ [the (get_exit_signal strategy i p1)]
             else map exit_reason (s_trades s))"
    using assms(2,5) by (simp add: trades_generic_step)
qed

text \<open>
  The witness: take-profit price 12, close 15, stop 20 and a strategy that signals an
  exit as well.  All three exits apply and the trade is logged as "Take Profit".
\<close>

theorem generic_exit_order_witness:
  "in_pos (s_position (open_state 20))
   \<and> truthy_price (get_take_profit_price tp12_strategy 0 (s_position (open_state 20)))
   \<and> the (get_take_profit_price tp12_strategy 0 (s_position (open_state 20)))
        \<le> c_close (one_candle 15 ! 0)
   \<and> c_close (one_candle 15 ! 0) \<le> stop_price (s_position (open_state 20))
   \<and> map exit_reason (s_trades (generic_step tp12_strategy (one_candle 15) 0 (open_state 20) 0))
        = [''Take Profit'']"
  using generic_exit_order
    [of "open_state 20" "c_close (one_candle 15 ! 0)" "one_candle 15" 0
        "get_take_profit_price tp12_strategy 0 (s_position (open_state 20))" tp12_strategy
        "update_trailing_stop tp12_strategy 0 (c_close (one_candle 15 ! 0)) (s_position (open_state 20))"
        "generic_step tp12_strategy (one_candle 15) 0 (open_state 20) 0" 0]
  by (simp add: open_state_def tp12_strategy_def BaseStrategy_def one_candle_def truthy_price_def)

text \<open>
  The claim as the specification states it, with the take-profit condition read as
  "close >= take-profit price", fails for a take-profit price of \<open>0.0\<close>: the close 5 is
  above it and at or below the stop 9, and the trade is logged as "Stop Loss".
\<close>

theorem generic_exit_order_counterexample:
  "in_pos (s_position (open_state 9))
   \<and> get_take_profit_price zero_tp_strategy 0 (s_position (open_state 9)) = Some 0
   \<and> (0 :: real) \<le> c_close (one_candle 5 ! 0)
   \<and> c_close (one_candle 5 ! 0) \<le> stop_price (s_position (open_state 9))
   \<and> map exit_reason (s_trades (generic_step zero_tp_strategy (one_candle 5) 0 (open_state 9) 0))
        = [''Stop Loss'']"
  by (simp add: open_state_def zero_tp_strategy_def BaseStrategy_def one_candle_def
      generic_step_def exit_phase_def entry_phase_def exit_check_def close_position_def
      truthy_price_def truthy_reason_def flat_position_def Let_def)

section \<open>The effective start index\<close>

text \<open>
  C2, as the code has it.  Every mode takes its start index from \<open>_get_start_index\<close>,
  which computes max(warmup, requested index), the warmup being 200 when the
  configuration has none.  When that index meets or exceeds the length of the series the
  function prints a warning with the required index and the data length and returns
  \<open>None\<close>, and each of the three runs returns normally with the empty result (no
  statistics, no trades, empty curves): nothing is raised and no partial result is
  returned.  Otherwise the run starts at that index.
\<close>

theorem insufficient_data_gives_empty_result:
  assumes "start = max (case TECHNICAL_WARMUP_PERIOD config of Some w \<Rightarrow> w | None \<Rightarrow> 200)
                       (searchsorted_left (map c_ts df) (BACKTEST_START_DATE config))"
  shows "(length df \<le> start \<longrightarrow>
            get_start_index df config = (Warning_not_enough_data start (length df), None)
            \<and> run_generic_backtest df strategy config = Inr empty_result
            \<and> run_continuous_backtest df cstrategy config = Inr empty_result
            \<and> run_legacy_backtest df lstrategy st0 config optimizer_arrays = Inr empty_result)
       \<and> (start < length df \<longrightarrow> snd (get_start_index df config) = Some start)"
proof -
  have short: "get_start_index df config = (Warning_not_enough_data start (length df), None)
            \<and> run_generic_backtest df strategy config = Inr empty_result
            \<and> run_continuous_backtest df cstrategy config = Inr empty_result
            \<and> run_legacy_backtest df lstrategy st0 config optimizer_arrays = Inr empty_result"
    if "length df \<le> start"
    using that unfolding assms
    by (simp add: get_start_index_def run_generic_backtest_def run_continuous_backtest_def
        run_legacy_backtest_def Let_def)
  have enough: "snd (get_start_index df config) = Some start" if "start < length df"
  proof -
    from that have "\<not> length df \<le> start" by simp
    then show ?thesis
      unfolding assms by (simp add: get_start_index_def Let_def)
  qed
  from short enough show ?thesis by blast
qed

text \<open>
  The witness: three candles and the default warmup of 200; the base strategy, the grid
  strategy and a legacy strategy.
\<close>

theorem insufficient_data_gives_empty_result_witness:
  "get_start_index three_candles short_config
     = (Warning_not_enough_data 200 3, None)
   \<and> run_generic_backtest three_candles BaseStrategy short_config
       = Inr empty_result
   \<and> run_continuous_backtest three_candles (GridStrategy fl64 grid4) short_config
       = Inr empty_result
   \<and> run_legacy_backtest three_candles idle_legacy () short_config ()
       = Inr empty_result"
  using insufficient_data_gives_empty_result
    [of 200 short_config three_candles BaseStrategy "GridStrategy fl64 grid4"
        idle_legacy "()" "()"]
  by (simp add: short_config_def three_candles_def searchsorted_left_def)

text \<open>
  The claim as the specification states it fails: with three candles and a warmup of 200
  the generic run does not fail with an error; it returns the empty result, which holds
  neither the requested nor the available size.
\<close>

theorem insufficient_data_counterexample:
  "run_generic_backtest three_candles BaseStrategy short_config
     = Inr \<lparr> r_stats = None, r_trades = [], r_equity = [], r_bh_equity = [] \<rparr>"
  by (simp add: run_generic_backtest_def get_start_index_def short_config_def three_candles_def
      searchsorted_left_def empty_result_def Let_def)

section \<open>The grid strategy\<close>

lemma scale53_numeral:
  "scale53 (numeral k) m e =
     (if 9007199254740992 \<le> \<bar>m\<bar> then scale53 (pred_numeral k) (m / 2) (e + 1)
      else if \<bar>m\<bar> < 4503599627370496 then scale53 (pred_numeral k) (m * 2) (e - 1)
      else (m, e))"
  by (simp add: numeral_eq_Suc)

lemmas fl64_eval = fl64_def scale53_numeral round_half_even_def pow2_def Let_def

text \<open>The float64 roundings that the concrete inputs below go through.\<close>

lemma fl64_value_1: "fl64 (33333 / 100) = 5864003374185185 / 17592186044416"
  by (simp add: fl64_eval)

lemma fl64_value_2: "fl64 (127 / 100) = 2859785763380265 / 2251799813685248"
  by (simp add: fl64_eval)

lemma fl64_value_3: "fl64 (5864003374185185 / 35184372088832) = 5864003374185185 / 35184372088832"
  by (simp add: fl64_eval)

lemma fl64_value_4: "fl64 (75059243189570368 / 571957152676053) = 2308662745742199 / 17592186044416"
  by (simp add: fl64_eval)

lemma fl64_value_5: "fl64 (6602280852719933207522494302735 / 39614081257132168796771975168) = 2932001687092593 / 17592186044416"
  by (simp add: fl64_eval)

lemma fl64_value_6: "fl64 (11728006748370371 / 35184372088832) = 2932001687092593 / 8796093022208"
  by (simp add: fl64_eval)

lemma fl64_value_7: "fl64 (500) = 500"
  by (simp add: fl64_eval)

lemma fl64_value_8: "fl64 (5) = 5"
  by (simp add: fl64_eval)

lemma fl64_value_9: "fl64 (1 / 100) = 5764607523034235 / 576460752303423488"
  by (simp add: fl64_eval)

lemma fl64_value_10: "fl64 (582225359826457723 / 576460752303423488) = 4548635623644201 / 4503599627370496"
  by (simp add: fl64_eval)

lemma fl64_value_11: "fl64 (250) = 250"
  by (simp add: fl64_eval)

lemma fl64_value_12: "fl64 (450359962737049600 / 4548635623644201) = 6967202393828119 / 70368744177664"
  by (simp add: fl64_eval)

lemma fl64_value_13: "fl64 (445900953204999616 / 4548635623644201) = 6898220191909029 / 70368744177664"
  by (simp add: fl64_eval)

lemma fl64_value_14: "fl64 (147162030760725952 / 1516211874548067) = 6829920982088147 / 70368744177664"
  by (simp add: fl64_eval)

lemma fl64_value_15: "fl64 (113715890591105025 / 1125899906842624) = 101"
  by (simp add: fl64_eval)

lemma fl64_value_16: "fl64 (459412197988064301 / 4503599627370496) = 7178315593563505 / 70368744177664"
  by (simp add: fl64_eval)

lemma fl64_value_17: "fl64 (32651542026643626439427818484505 / 316912650057057350374175801344) = 1812524687374785 / 17592186044416"
  by (simp add: fl64_eval)

lemma fl64_value_18: "fl64 (1000) = 1000"
  by (simp add: fl64_eval)

lemma fl64_value_19: "fl64 (17592186044416000 / 6967202393828119) = 5685794529555251 / 2251799813685248"
  by (simp add: fl64_eval)

lemma fl64_value_20: "fl64 (16944793597981491 / 2251799813685248) = 4236198399495373 / 562949953421312"
  by (simp add: fl64_eval)

lemma fl64_value_21: "fl64 (31691265005705736171789605087919 / 316912650057057350374175801344) = 100"
  by (simp add: fl64_eval)

lemma fl64_value_22: "fl64 (419383641550041927 / 562949953421312) = 6552869399219405 / 8796093022208"
  by (simp add: fl64_eval)

lemma fl64_value_23: "fl64 (8751892654771405 / 8796093022208) = 8751892654771405 / 8796093022208"
  by (simp add: fl64_eval)

lemmas fl64_values = fl64_value_1 fl64_value_2 fl64_value_3 fl64_value_4 fl64_value_5 fl64_value_6 fl64_value_7 fl64_value_8 fl64_value_9 fl64_value_10 fl64_value_11 fl64_value_12 fl64_value_13 fl64_value_14 fl64_value_15 fl64_value_16 fl64_value_17 fl64_value_18 fl64_value_19 fl64_value_20 fl64_value_21 fl64_value_22 fl64_value_23

lemma py_index_start_candle:
  assumes "df \<noteq> []" and "start_index \<le> length df"
  shows "py_index df (int start_index - 1) = Inr (start_candle_of start_index df)"
proof (cases "start_index = 0")
  case True
  from assms(1) obtain n where n: "length df = Suc n"
    by (cases df) auto
  then have "nat (int (length df) + (int start_index - 1)) = length df - 1"
    using True by simp
  moreover have "last df = df ! (length df - 1)"
    using assms(1) by (rule last_conv_nth)
  ultimately show ?thesis
    using True n by (simp add: py_index_def start_candle_of_def)
next
  case False
  then have "0 \<le> int start_index - 1" "int start_index - 1 < int (length df)"
    using assms(2) by auto
  moreover have "nat (int start_index - 1) = start_index - 1"
    using False by auto
  ultimately show ?thesis
    using False by (simp add: py_index_def start_candle_of_def)
qed

lemma py_index_no_start_candle:
  assumes "df = [] \<or> length df < start_index"
  shows "py_index df (int start_index - 1) = Inl IndexError"
  using assms by (auto simp: py_index_def)

text \<open>
  C10, as the code has it.  The initialisation reads the start price at position \<open>s - 1\<close>
  in Python's indexing: the close of candle \<open>s - 1\<close> for a start index of at least 1, the
  close of the last candle for a start index of 0; it raises \<open>IndexError\<close> on an empty
  series or one shorter than \<open>s\<close>, and \<open>ZeroDivisionError\<close> for a grid count of zero.
  Otherwise the cash is \<open>C / 2\<close>, the quantity \<open>(C / 2) / price\<close> and the equity curve holds
  one point, \<open>cash + quantity * price\<close>, at the timestamp of that candle, each operation
  followed by the rounding \<open>fl\<close>.  Where nothing is rounded and the price is not zero,
  that first point is exactly \<open>C\<close>.
\<close>

theorem grid_init_splits_capital:
  "(df = [] \<or> length df < s \<longrightarrow> init_continuous_backtest fl p C s df = Inl IndexError)
   \<and> (df \<noteq> [] \<and> s \<le> length df \<and> GQ_GRID_MAX_GRIDS p = 0 \<longrightarrow>
        init_continuous_backtest fl p C s df = Inl ZeroDivisionError)
   \<and> (df \<noteq> [] \<and> s \<le> length df \<and> GQ_GRID_MAX_GRIDS p \<noteq> 0 \<longrightarrow>
        (\<exists>g. init_continuous_backtest fl p C s df = Inr g
           \<and> g_cash g = fl (C / 2)
           \<and> base_asset_qty g = fl (fl (C / 2) / c_close (start_candle_of s df))
           \<and> g_equity_curve g =
               [(c_ts (start_candle_of s df),
                 fl (fl (C / 2)
                     + fl (fl (fl (C / 2) / c_close (start_candle_of s df))
                           * c_close (start_candle_of s df))))]))
   \<and> (df \<noteq> [] \<and> s \<le> length df \<and> GQ_GRID_MAX_GRIDS p \<noteq> 0
        \<and> c_close (start_candle_of s df) \<noteq> 0 \<longrightarrow>
        (\<exists>g. init_continuous_backtest exact p C s df = Inr g
           \<and> g_cash g = C / 2
           \<and> base_asset_qty g = (C / 2) / c_close (start_candle_of s df)
           \<and> g_equity_curve g = [(c_ts (start_candle_of s df), C)]))"
proof -
  have a: "init_continuous_backtest fl p C s df = Inl IndexError"
    if "df = [] \<or> length df < s"
    using py_index_no_start_candle [OF that]
    by (simp add: init_continuous_backtest_def)
  have b: "init_continuous_backtest fl p C s df = Inl ZeroDivisionError"
    if "df \<noteq> [] \<and> s \<le> length df \<and> GQ_GRID_MAX_GRIDS p = 0"
    using that py_index_start_candle [of df s]
    by (simp add: init_continuous_backtest_def)
  have c: "\<exists>g. init_continuous_backtest fl p C s df = Inr g
           \<and> g_cash g = fl (C / 2)
           \<and> base_asset_qty g = fl (fl (C / 2) / c_close (start_candle_of s df))
           \<and> g_equity_curve g =
               [(c_ts (start_candle_of s df),
                 fl (fl (C / 2)
                     + fl (fl (fl (C / 2) / c_close (start_candle_of s df))
                           * c_close (start_candle_of s df))))]"
    if "df \<noteq> [] \<and> s \<le> length df \<and> GQ_GRID_MAX_GRIDS p \<noteq> 0"
    using that py_index_start_candle [of df s]
    by (simp add: init_continuous_backtest_def Let_def)
  have d: "\<exists>g. init_continuous_backtest exact p C s df = Inr g
           \<and> g_cash g = C / 2
           \<and> base_asset_qty g = (C / 2) / c_close (start_candle_of s df)
           \<and> g_equity_curve g = [(c_ts (start_candle_of s df), C)]"
    if "df \<noteq> [] \<and> s \<le> length df \<and> GQ_GRID_MAX_GRIDS p \<noteq> 0
        \<and> c_close (start_candle_of s df) \<noteq> 0"
    using that py_index_start_candle [of df s]
    by (simp add: init_continuous_backtest_def Let_def exact_def)
  from a b c d show ?thesis by blast
qed

text \<open>
  The witness: capital 1000 at start index 1 on a series whose first candle closes at 100,
  in float64.  Every operation is exact there and the first equity point is 1000.
\<close>

theorem grid_init_splits_capital_witness:
  "dip_candles \<noteq> [] \<and> 1 \<le> length dip_candles \<and> GQ_GRID_MAX_GRIDS grid4 \<noteq> 0
   \<and> (\<exists>g. init_continuous_backtest fl64 grid4 1000 1 dip_candles = Inr g
          \<and> g_cash g = 500 \<and> base_asset_qty g = 5 \<and> g_equity_curve g = [(0, 1000)])"
  using grid_init_splits_capital [of dip_candles 1 fl64 grid4 1000]
  by (simp add: grid4_def dip_candles_def start_candle_of_def fl64_values Let_def)

lemma init_333_33:
  "map_sum id g_equity_curve
     (init_continuous_backtest fl64 grid4 capital_333_33 (Suc 0) candle_1_27)
     = Inr [(0, 2932001687092593 / 8796093022208)]"
  by (simp add: init_continuous_backtest_def py_index_def candle_1_27_def grid4_def
      capital_333_33_def price_1_27_def fl64_values Let_def)

text \<open>
  The claim as stated, with the first equity point exactly \<open>C\<close>, fails in float64: for
  the capital 333.33 and the start price 1.27 the quantity is rounded, the product
  166.66500000000002 is not the half capital again, and the first point is
  333.33000000000004.
\<close>

theorem grid_init_rounding_counterexample:
  "fl64 (33333 / 100) = capital_333_33 \<and> fl64 (127 / 100) = price_1_27
   \<and> 0 < capital_333_33 \<and> 0 < c_close (candle_1_27 ! 0)
   \<and> map_sum id g_equity_curve (init_continuous_backtest fl64 grid4 capital_333_33 1 candle_1_27)
        = Inr [(0, 2932001687092593 / 8796093022208)]
   \<and> capital_333_33 < 2932001687092593 / 8796093022208"
  by (simp add: init_333_33)
    (simp add: capital_333_33_def price_1_27_def candle_1_27_def fl64_values)

lemma grid4_init:
  "init_continuous_backtest exact grid4 1000 (Suc 0) dip_candles =
     Inr \<lparr> base_asset_qty = 5, g_cash = 500, g_equity_curve = [(0, 1000)], g_trades = [],
           g_data = dip_candles, grid_spacing_factor = 101 / 100, quote_qty_per_grid = 250,
           max_grids = 4, buy_orders = [10000 / 101, 1000000 / 10201],
           sell_orders = [101, 10201 / 100] \<rparr>"
  by (simp add: init_continuous_backtest_def py_index_def grid4_def dip_candles_def Let_def
      numeral_2_eq_2 dict_set_def exact_def)

lemma grid4_first_candle:
  "process_candle exact (Suc 0)
     \<lparr> base_asset_qty = 5, g_cash = 500, g_equity_curve = [(0, 1000)], g_trades = [],
       g_data = dip_candles, grid_spacing_factor = 101 / 100, quote_qty_per_grid = 250,
       max_grids = 4, buy_orders = [10000 / 101, 1000000 / 10201],
       sell_orders = [101, 10201 / 100] \<rparr>
   = \<lparr> base_asset_qty = 301 / 40, g_cash = 250,
       g_equity_curve = [(0, 1000), (86400, 39799 / 40)], g_trades = [],
       g_data = dip_candles, grid_spacing_factor = 101 / 100, quote_qty_per_grid = 250,
       max_grids = 4, buy_orders = [1000000 / 10201, 100000000 / 1030301],
       sell_orders = [101, 10201 / 100, 100] \<rparr>"
  by (simp add: process_candle_def dip_candles_def Let_def fill_buy_def fill_sell_def
      dict_set_def dict_del_def exact_def)

lemma grid4_init_fl64:
  "init_continuous_backtest fl64 grid4 1000 (Suc 0) dip_candles =
     Inr \<lparr> base_asset_qty = 5, g_cash = 500, g_equity_curve = [(0, 1000)], g_trades = [],
           g_data = dip_candles, grid_spacing_factor = 4548635623644201 / 4503599627370496,
           quote_qty_per_grid = 250, max_grids = 4,
           buy_orders = [6967202393828119 / 70368744177664, 6898220191909029 / 70368744177664],
           sell_orders = [101, 7178315593563505 / 70368744177664] \<rparr>"
  by (simp add: init_continuous_backtest_def py_index_def grid4_def dip_candles_def
      numeral_2_eq_2 dict_set_def fl64_values Let_def)

lemma grid4_first_candle_fl64:
  "process_candle fl64 (Suc 0)
     \<lparr> base_asset_qty = 5, g_cash = 500, g_equity_curve = [(0, 1000)], g_trades = [],
       g_data = dip_candles, grid_spacing_factor = 4548635623644201 / 4503599627370496,
       quote_qty_per_grid = 250, max_grids = 4,
       buy_orders = [6967202393828119 / 70368744177664, 6898220191909029 / 70368744177664],
       sell_orders = [101, 7178315593563505 / 70368744177664] \<rparr>
   = \<lparr> base_asset_qty = 4236198399495373 / 562949953421312, g_cash = 250,
       g_equity_curve = [(0, 1000), (86400, 8751892654771405 / 8796093022208)], g_trades = [],
       g_data = dip_candles, grid_spacing_factor = 4548635623644201 / 4503599627370496,
       quote_qty_per_grid = 250, max_grids = 4,
       buy_orders = [6898220191909029 / 70368744177664, 6829920982088147 / 70368744177664],
       sell_orders = [101, 7178315593563505 / 70368744177664, 100] \<rparr>"
  by (simp add: process_candle_def dip_candles_def fill_buy_def fill_sell_def
      dict_set_def dict_del_def fl64_values Let_def)

text \<open>
  C3 on the code.  A grid of four levels at one percent, capital 1000, start price 100; the
  next candle ranges from 99.5 to 99.  The buy level 100 / 1.01 is filled: it leaves the
  buy side, a sell level at 100 is added and the buy ladder gets a new lowest level.
  After this candle five levels are pending, one more than \<open>max_grids\<close>, in exact
  arithmetic and in float64 alike.
\<close>

theorem grid_levels_exceed_max_grids:
  "map_sum id (\<lambda>g. (max_grids g, buy_orders g, sell_orders g, pending_levels g))
     (continuous_loop (GridStrategy exact grid4) dip_candles 1000 1)
   = Inr (4, [1000000 / 10201, 100000000 / 1030301], [101, 10201 / 100, 100], 5)
   \<and> map_sum id (\<lambda>g. (max_grids g, buy_orders g, sell_orders g, pending_levels g))
     (continuous_loop (GridStrategy fl64 grid4) dip_candles 1000 1)
   = Inr (4, [6898220191909029 / 70368744177664, 6829920982088147 / 70368744177664],
          [101, 7178315593563505 / 70368744177664, 100], 5)"
proof -
  have range: "[Suc 0 ..< length dip_candles] = [Suc 0]"
    by (simp add: dip_candles_def)
  have "continuous_loop (GridStrategy exact grid4) dip_candles 1000 1
          = Inr \<lparr> base_asset_qty = 301 / 40, g_cash = 250,
                  g_equity_curve = [(0, 1000), (86400, 39799 / 40)], g_trades = [],
                  g_data = dip_candles, grid_spacing_factor = 101 / 100,
                  quote_qty_per_grid = 250, max_grids = 4,
                  buy_orders = [1000000 / 10201, 100000000 / 1030301],
                  sell_orders = [101, 10201 / 100, 100] \<rparr>"
    by (simp add: continuous_loop_def GridStrategy_def grid4_init range grid4_first_candle)
  moreover have "continuous_loop (GridStrategy fl64 grid4) dip_candles 1000 1
          = Inr \<lparr> base_asset_qty = 4236198399495373 / 562949953421312, g_cash = 250,
                  g_equity_curve = [(0, 1000), (86400, 8751892654771405 / 8796093022208)],
                  g_trades = [], g_data = dip_candles,
                  grid_spacing_factor = 4548635623644201 / 4503599627370496,
                  quote_qty_per_grid = 250, max_grids = 4,
                  buy_orders = [6898220191909029 / 70368744177664, 6829920982088147 / 70368744177664],
                  sell_orders = [101, 7178315593563505 / 70368744177664, 100] \<rparr>"
    by (simp add: continuous_loop_def GridStrategy_def grid4_init_fl64 range
        grid4_first_candle_fl64)
  ultimately show ?thesis
    by (simp add: pending_levels_def)
qed

section \<open>The parameter scorer\<close>

lemma score_trail_sums [simp]:
  "gp (score_trail price a mult t s) = gp s" "gl (score_trail price a mult t s) = gl s"
  by (simp_all add: score_trail_def Let_def)

lemma score_exit_nonneg:
  assumes "0 \<le> gp s" and "0 \<le> gl s"
  shows "nonneg_sums (score_exit price death s)"
proof (cases "(price < sc_stop s \<or> death) \<and> sc_entry s \<noteq> 0")
  case False
  with assms show ?thesis
    by (auto simp: score_exit_def nonneg_sums_def)
next
  case True
  show ?thesis
  proof (cases "0 < (price - sc_entry s) / sc_entry s")
    case True
    with \<open>(price < sc_stop s \<or> death) \<and> sc_entry s \<noteq> 0\<close> assms show ?thesis
      by (simp add: score_exit_def nonneg_sums_def Let_def)
  next
    case False
    then have "(price - sc_entry s) / sc_entry s \<le> 0" by simp
    with False \<open>(price < sc_stop s \<or> death) \<and> sc_entry s \<noteq> 0\<close> assms show ?thesis
      by (simp add: score_exit_def nonneg_sums_def Let_def)
  qed
qed

lemma score_body_nonneg:
  assumes "0 \<le> gp s" and "0 \<le> gl s"
  shows "nonneg_sums
           (if \<not> sc_in_pos s \<and> gold
            then Inr (s\<lparr> sc_in_pos := True, sc_entry := price, sc_stop := price - a * mult \<rparr>)
            else if sc_in_pos s
            then score_exit price death (score_trail price a mult t s)
            else Inr s)"
proof (cases "\<not> sc_in_pos s \<and> gold")
  case True
  with assms show ?thesis by (simp add: nonneg_sums_def)
next
  case False
  show ?thesis
  proof (cases "sc_in_pos s")
    case True
    have "nonneg_sums (score_exit price death (score_trail price a mult t s))"
      by (rule score_exit_nonneg) (simp_all add: assms)
    with True show ?thesis by simp
  next
    case no: False
    with False assms show ?thesis by (simp add: nonneg_sums_def)
  qed
qed

lemma score_step_nonneg:
  assumes "nonneg_sums r"
  shows "nonneg_sums (score_step fma sma atr close mult t i r)"
proof (cases r)
  case (Inl e)
  then show ?thesis by (simp add: score_step_def nonneg_sums_def)
next
  case (Inr s)
  with assms have s: "0 \<le> gp s" "0 \<le> gl s" by (simp_all add: nonneg_sums_def)
  show ?thesis
  proof (cases "score_reads fma sma atr i")
    case (Inl e)
    with Inr show ?thesis by (simp add: score_step_def nonneg_sums_def)
  next
    case rd: (Inr v)
    show ?thesis
    proof (cases v)
      case None
      with Inr rd s show ?thesis by (simp add: score_step_def nonneg_sums_def)
    next
      case (Some q)
      obtain f1 s1 f0 s0 a where q: "q = (f1, s1, f0, s0, a)" by (cases q) auto
      show ?thesis
      proof (cases "nb_get close i")
        case (Inl e)
        with Inr rd Some q show ?thesis by (simp add: score_step_def nonneg_sums_def)
      next
        case pr: (Inr price)
        from score_body_nonneg [OF s, of "f0 < s0 \<and> s1 < f1" price a mult "s0 < f0 \<and> f1 < s1" t]
        show ?thesis
          using Inr rd Some q pr by (simp add: score_step_def Let_def)
      qed
    qed
  qed
qed

lemma score_fold_nonneg:
  "nonneg_sums r \<Longrightarrow> nonneg_sums (fold (score_step fma sma atr close mult t) is r)"
  by (induction "is" arbitrary: r) (simp_all add: score_step_nonneg)

lemma score_loop_nonneg:
  assumes "score_loop fma sma atr close mult t start end' = Inr s"
  shows "0 \<le> gp s \<and> 0 \<le> gl s"
proof -
  have "nonneg_sums (Inr score_init)"
    by (simp add: nonneg_sums_def score_init_def)
  then have "nonneg_sums (score_loop fma sma atr close mult t start end')"
    unfolding score_loop_def by (rule score_fold_nonneg)
  with assms show ?thesis by (simp add: nonneg_sums_def)
qed

lemma collect_nth:
  "collect rs = Inr xs \<Longrightarrow> k < length rs \<Longrightarrow> rs ! k = Inr (xs ! k)"
proof (induction rs arbitrary: xs k rule: collect.induct)
  case 1
  then show ?case by simp
next
  case (2 e rs)
  then show ?case by simp
next
  case (3 x rs)
  from "3.prems"(1) obtain ys where ys: "collect rs = Inr ys" "xs = x # ys"
    by (auto split: sum.splits)
  show ?case
  proof (cases k)
    case 0
    with ys show ?thesis by simp
  next
    case (Suc j)
    with "3.prems"(2) have "j < length rs" by simp
    with "3.IH" ys(1) have "rs ! j = Inr (ys ! j)" by simp
    with Suc ys show ?thesis by simp
  qed
qed

text \<open>
  C6, as the code has it.  For every tuple \<open>k\<close> of the grid the returned score comes from
  the gross profit and the gross loss accumulated over the index range, both of which
  are never negative: it is their quotient when the gross loss is positive; when the
  gross loss is zero and the gross profit is positive it is the gross profit times 1000
  (a value that grows with the profit, not a constant); and it is zero when both are zero.
\<close>

theorem score_is_ratio_or_scaled_profit:
  assumes "score_params_numba fma_g sma_g atr_g mult_g fma_a sma_a atr_a close start end' t
             = Inr scores"
    and "k < length fma_g"
  shows "\<exists>s. score_loop (fma_a ! k) (sma_a ! k) (atr_a ! k) close (mult_g ! k) t start end' = Inr s
           \<and> 0 \<le> gp s \<and> 0 \<le> gl s
           \<and> (0 < gl s \<longrightarrow> scores ! k = gp s / gl s)
           \<and> (gl s = 0 \<and> 0 < gp s \<longrightarrow> scores ! k = gp s * 1000)
           \<and> (gl s = 0 \<and> gp s = 0 \<longrightarrow> scores ! k = 0)"
proof -
  let ?one = "\<lambda>k. score_one (fma_a ! k) (sma_a ! k) (atr_a ! k) close (mult_g ! k) t start end'"
  have "map ?one [0 ..< length fma_g] ! k = Inr (scores ! k)"
    using assms collect_nth [of "map ?one [0 ..< length fma_g]" scores k]
    by (simp add: score_params_numba_def)
  with assms(2) have one: "?one k = Inr (scores ! k)" by simp
  then obtain s where
    s: "score_loop (fma_a ! k) (sma_a ! k) (atr_a ! k) close (mult_g ! k) t start end' = Inr s"
    and sc: "scores ! k = score_of s"
    by (auto simp: score_one_def split: sum.splits)
  from score_loop_nonneg [OF s] have nn: "0 \<le> gp s" "0 \<le> gl s" by simp_all
  from sc nn have "(0 < gl s \<longrightarrow> scores ! k = gp s / gl s)
           \<and> (gl s = 0 \<and> 0 < gp s \<longrightarrow> scores ! k = gp s * 1000)
           \<and> (gl s = 0 \<and> gp s = 0 \<longrightarrow> scores ! k = 0)"
    by (simp add: score_of_def)
  with s nn show ?thesis by blast
qed

lemma cross_loop_11:
  "score_loop cross_fma cross_sma cross_atr [10, 10, 11] 1 1 0 3
     = Inr \<lparr> gp = 1 / 10, gl = 0, sc_in_pos = False, sc_entry = 10, sc_stop = 9 \<rparr>"
  by (simp add: score_loop_def py_range_def upto.simps score_step_def score_reads_def nb_get_def
      py_index_def cross_fma_def cross_sma_def cross_atr_def score_init_def score_trail_def
      score_exit_def Let_def)

lemma cross_loop_12:
  "score_loop cross_fma cross_sma cross_atr [10, 10, 12] 1 1 0 3
     = Inr \<lparr> gp = 1 / 5, gl = 0, sc_in_pos = False, sc_entry = 10, sc_stop = 11 \<rparr>"
  by (simp add: score_loop_def py_range_def upto.simps score_step_def score_reads_def nb_get_def
      py_index_def cross_fma_def cross_sma_def cross_atr_def score_init_def score_trail_def
      score_exit_def Let_def)

lemma cross_scores_11:
  "score_params_numba [10] [30] [14] [1] [cross_fma] [cross_sma] [cross_atr] [10, 10, 11] 0 3 1
     = Inr [100]"
  by (simp add: score_params_numba_def score_one_def cross_loop_11 score_of_def)

theorem score_is_ratio_or_scaled_profit_witness:
  "\<exists>s. score_loop cross_fma cross_sma cross_atr [10, 10, 11] 1 1 0 3 = Inr s
      \<and> gl s = 0 \<and> 0 < gp s \<and> [100 :: real] ! 0 = gp s * 1000"
  using score_is_ratio_or_scaled_profit
    [of "[10]" "[30]" "[14]" "[1]" "[cross_fma]" "[cross_sma]" "[cross_atr]" "[10, 10, 11]" 0 3 1
        "[100]" 0]
  by (simp add: cross_scores_11 cross_loop_11)

text \<open>
  The claim as the specification states it fails: with no loss at all, a window that
  ends in a gain of one tenth scores 100 and one that ends in a gain of one fifth scores
  200, so the score without losses is not one constant.
\<close>

theorem score_without_loss_counterexample:
  "score_loop cross_fma cross_sma cross_atr [10, 10, 11] 1 1 0 3
     = Inr \<lparr> gp = 1 / 10, gl = 0, sc_in_pos = False, sc_entry = 10, sc_stop = 9 \<rparr>
   \<and> score_one cross_fma cross_sma cross_atr [10, 10, 11] 1 1 0 3 = Inr 100
   \<and> score_loop cross_fma cross_sma cross_atr [10, 10, 12] 1 1 0 3
     = Inr \<lparr> gp = 1 / 5, gl = 0, sc_in_pos = False, sc_entry = 10, sc_stop = 11 \<rparr>
   \<and> score_one cross_fma cross_sma cross_atr [10, 10, 12] 1 1 0 3 = Inr 200"
  by (simp add: score_one_def cross_loop_11 cross_loop_12 score_of_def)

section \<open>The trailing stop of the legacy strategy\<close>

lemma dmo_update_stop_mono:
  "l_stop p \<le> l_stop (dmo_update_trailing_stop cfg ind i price p)"
  by (simp add: dmo_update_trailing_stop_def Let_def split: option.splits prod.splits)

lemma trail_over_mono:
  "l_stop p \<le> l_stop (trail_over cfg ind candles p)"
proof (induction candles arbitrary: p)
  case Nil
  then show ?case by (simp add: trail_over_def)
next
  case (Cons c cs)
  obtain i price where c: "c = (i, price)" by (cases c)
  have "l_stop p \<le> l_stop (dmo_update_trailing_stop cfg ind i price p)"
    by (rule dmo_update_stop_mono)
  also have "\<dots> \<le> l_stop (trail_over cfg ind cs (dmo_update_trailing_stop cfg ind i price p))"
    by (rule Cons.IH)
  finally show ?case by (simp add: trail_over_def c)
qed

lemma trail_over_append:
  "trail_over cfg ind (cs1 @ cs2) p = trail_over cfg ind cs2 (trail_over cfg ind cs1 p)"
  by (simp add: trail_over_def)

lemma score_exit_keeps_stop:
  "score_exit price death t = Inr s' \<Longrightarrow> sc_stop s' = sc_stop t"
  by (auto simp: score_exit_def Let_def split: if_splits)

lemma score_trail_eq:
  "score_trail price a mult trig s
     = (if a * mult * trig < price - sc_entry s \<and> sc_stop s < price - a * mult
        then s\<lparr> sc_stop := price - a * mult \<rparr> else s)"
  by (simp add: score_trail_def Let_def)

lemma score_step_stop:
  assumes "sc_in_pos s"
    and "score_reads fma sma atr j = Inr (Some (f1, s1, f0, s0, a))"
    and "nb_get close j = Inr price"
    and "score_step fma sma atr close mult trig j (Inr s) = Inr s'"
  shows "sc_stop s' = sc_stop (score_trail price a mult trig s)"
proof -
  from assms have "score_exit price (s0 < f0 \<and> f1 < s1) (score_trail price a mult trig s) = Inr s'"
    by (simp add: score_step_def Let_def)
  then show ?thesis by (rule score_exit_keeps_stop)
qed

text \<open>
  C8.  With the position's parameter tuple set and a defined volatility value at the
  candle, the update of the legacy strategy sets the stop to price - atr * multiplier
  exactly when the unrealised gain price - entry exceeds atr * multiplier * trigger
  factor and that candidate is above the current stop; in every other case, also with a
  missing or not-a-number volatility, the position is returned unchanged.  So no update
  lowers the stop, the stop is non-decreasing along every sequence of updates, and an
  open position that the legacy loop keeps open has not had its stop lowered.  The
  scorer's simplified system trails its stop by the same rule: the trailing step sets
  the stop to price - atr * multiplier exactly under the same two conditions and
  changes nothing otherwise, and after a candle on which the system is in position the
  stop is that trailed stop, never below the stop before.
\<close>

theorem trailing_stop_only_ratchets_up:
  "(l_params p = Some (fma, sma, atr_len, mult) \<and> ind_atr ind atr_len = Some arr
      \<and> i < length arr \<and> arr ! i = Some a \<longrightarrow>
        dmo_update_trailing_stop cfg ind i price p
          = (if a * mult * TRAIL_TRIGGER_MULT cfg < price - l_entry p \<and> l_stop p < price - a * mult
             then p\<lparr> l_stop := price - a * mult \<rparr> else p))
   \<and> l_stop p \<le> l_stop (dmo_update_trailing_stop cfg ind i price p)
   \<and> l_stop (trail_over cfg ind cs1 p) \<le> l_stop (trail_over cfg ind (cs1 @ cs2) p)
   \<and> (ls_update_trailing_stop strategy = dmo_update_trailing_stop cfg ind
        \<and> l_in_pos (ll_position st)
        \<and> l_in_pos (ll_position (legacy_exit_phase strategy t i price st)) \<longrightarrow>
          l_stop (ll_position st)
            \<le> l_stop (ll_position (legacy_exit_phase strategy t i price st)))
   \<and> score_trail sprice sa smult trig s
        = (if sa * smult * trig < sprice - sc_entry s \<and> sc_stop s < sprice - sa * smult
           then s\<lparr> sc_stop := sprice - sa * smult \<rparr> else s)
   \<and> sc_stop s \<le> sc_stop (score_trail sprice sa smult trig s)
   \<and> (sc_in_pos s \<and> score_reads fma_k sma_k atr_k j = Inr (Some (f1, s1, f0, s0, sa))
        \<and> nb_get close j = Inr sprice
        \<and> score_step fma_k sma_k atr_k close smult trig j (Inr s) = Inr s' \<longrightarrow>
          sc_stop s'
            = (if sa * smult * trig < sprice - sc_entry s \<and> sc_stop s < sprice - sa * smult
               then sprice - sa * smult else sc_stop s))"
proof -
  have exact: "dmo_update_trailing_stop cfg ind i price p
          = (if a * mult * TRAIL_TRIGGER_MULT cfg < price - l_entry p \<and> l_stop p < price - a * mult
             then p\<lparr> l_stop := price - a * mult \<rparr> else p)"
    if "l_params p = Some (fma, sma, atr_len, mult) \<and> ind_atr ind atr_len = Some arr
      \<and> i < length arr \<and> arr ! i = Some a"
    using that by (simp add: dmo_update_trailing_stop_def Let_def)
  have seq: "l_stop (trail_over cfg ind cs1 p) \<le> l_stop (trail_over cfg ind (cs1 @ cs2) p)"
    by (simp add: trail_over_append trail_over_mono)
  have loop: "l_stop (ll_position st)
            \<le> l_stop (ll_position (legacy_exit_phase strategy t i price st))"
    if "ls_update_trailing_stop strategy = dmo_update_trailing_stop cfg ind
        \<and> l_in_pos (ll_position st)
        \<and> l_in_pos (ll_position (legacy_exit_phase strategy t i price st))"
  proof (cases "truthy_reason (ls_get_exit_signal strategy i price
                   (dmo_update_trailing_stop cfg ind i price (ll_position st)))")
    case True
    with that have "\<not> l_in_pos (ll_position (legacy_exit_phase strategy t i price st))"
      by (simp add: legacy_exit_phase_def Let_def flat_lposition_def)
    with that show ?thesis by simp
  next
    case False
    with that have "ll_position (legacy_exit_phase strategy t i price st)
                      = dmo_update_trailing_stop cfg ind i price (ll_position st)"
      by (simp add: legacy_exit_phase_def Let_def)
    then show ?thesis by (simp add: dmo_update_stop_mono)
  qed
  have scorer: "sc_stop s \<le> sc_stop (score_trail sprice sa smult trig s)"
    by (simp add: score_trail_def Let_def)
  have step: "sc_stop s'
            = (if sa * smult * trig < sprice - sc_entry s \<and> sc_stop s < sprice - sa * smult
               then sprice - sa * smult else sc_stop s)"
    if "sc_in_pos s \<and> score_reads fma_k sma_k atr_k j = Inr (Some (f1, s1, f0, s0, sa))
        \<and> nb_get close j = Inr sprice
        \<and> score_step fma_k sma_k atr_k close smult trig j (Inr s) = Inr s'"
  proof -
    from that have "sc_stop s' = sc_stop (score_trail sprice sa smult trig s)"
      by (intro score_step_stop [of s fma_k sma_k atr_k j f1 s1 f0 s0 sa close sprice smult trig s'])
        simp_all
    then show ?thesis by (simp add: score_trail_eq)
  qed
  from exact seq loop scorer step dmo_update_stop_mono [of p cfg ind i price]
    score_trail_eq [of sprice sa smult trig s]
  show ?thesis by blast
qed

text \<open>
  The witness.  Legacy strategy: entry 100, stop 95, multiplier 2, volatility 2 at the
  candle, trigger factor 1, close 110; the gain 10 exceeds 4 and the candidate 106 is
  above 95.  Scorer: entry 10, stop 9, multiplier 1, volatility 1, close 12; the gain 2
  exceeds 1 and the stop goes to 11 on the candle that also closes the position.
\<close>

theorem trailing_stop_only_ratchets_up_witness:
  "l_params long_position = Some (10, 30, 14, 2) \<and> ind_atr atr14 14 = Some [Some 2, Some 2, None, Some 1]
   \<and> l_stop (dmo_update_trailing_stop short_config atr14 0 110 long_position) = 106
   \<and> l_stop long_position = 95
   \<and> sc_in_pos held_state
   \<and> score_reads cross_fma cross_sma cross_atr 2 = Inr (Some (1, 2, 3, 2, 1))
   \<and> nb_get [10, 10, 12 :: real] 2 = Inr 12
   \<and> score_step cross_fma cross_sma cross_atr [10, 10, 12] 1 1 2 (Inr held_state)
        = Inr \<lparr> gp = 1 / 5, gl = 0, sc_in_pos = False, sc_entry = 10, sc_stop = 11 \<rparr>
   \<and> sc_stop (score_trail 12 1 1 1 held_state) = 11"
  using trailing_stop_only_ratchets_up
    [where p = long_position and fma = 10 and sma = 30 and atr_len = 14 and mult = 2
       and ind = atr14 and arr = "[Some 2, Some 2, None, Some 1]" and i = 0 and a = 2
       and cfg = short_config and price = 110 and ?cs1.0 = "[]" and ?cs2.0 = "[]"
       and strategy = idle_legacy
       and st = "\<lparr> ll_cash = 0, ll_equity = 1000, ll_position = long_position,
          ll_trades = [], ll_equity_curve = [1000], ll_strategy = () \<rparr>"
       and t = 0 and s = held_state and sprice = 12 and sa = 1 and smult = 1 and trig = 1
       and fma_k = cross_fma and sma_k = cross_sma and atr_k = cross_atr and j = 2
       and ?f1.0 = 1 and ?s1.0 = 2 and ?f0.0 = 3 and ?s0.0 = 2
       and close = "[10, 10, 12]"
       and s' = "\<lparr> gp = 1 / 5, gl = 0, sc_in_pos = False, sc_entry = 10, sc_stop = 11 \<rparr>"]
  by (simp add: long_position_def atr14_def short_config_def held_state_def score_step_def
      score_reads_def nb_get_def py_index_def cross_fma_def cross_sma_def cross_atr_def
      score_trail_def score_exit_def Let_def)

section \<open>The moving averages\<close>

lemma fold_upt_invariant:
  assumes "a \<le> b" and "P a s"
    and "\<And>i s. a \<le> i \<Longrightarrow> i < b \<Longrightarrow> P i s \<Longrightarrow> P (Suc i) (step i s)"
  shows "P b (fold step [a ..< b] s)"
  using assms(1)
proof (induction b rule: dec_induct)
  case base
  from assms(2) show ?case by simp
next
  case (step n)
  have "fold step [a ..< Suc n] s = step n (fold step [a ..< n] s)"
    using step.hyps(1) by simp
  with step assms(3) show ?case by simp
qed

lemma fold_both:
  "fold (\<lambda>i pq. (f i (fst pq), g i (snd pq))) xs (p, q) = (fold f xs p, fold g xs q)"
  by (induction xs arbitrary: p q) simp_all

lemma np_sum_fold_defined:
  "acc \<noteq> None \<Longrightarrow> None \<notin> set xs \<Longrightarrow> fold (\<lambda>x acc. fadd acc x) xs acc \<noteq> None"
proof (induction xs arbitrary: acc)
  case Nil
  then show ?case by simp
next
  case (Cons x xs)
  from Cons.prems have "fadd acc x \<noteq> None"
    by (cases acc; cases x) (simp_all add: fadd_def)
  with Cons show ?case by simp
qed

lemma np_sum_defined: "None \<notin> set xs \<Longrightarrow> np_sum xs \<noteq> None"
  by (simp add: np_sum_def np_sum_fold_defined)

lemma fdiv_defined: "x \<noteq> None \<Longrightarrow> fdiv x w \<noteq> None"
  by (simp add: fdiv_def)

lemma nan_prefix_length: "length (set_nan_prefix out k) = length out"
  by (simp add: set_nan_prefix_def)

lemma nan_prefix_nth: "j < k \<Longrightarrow> j < length out \<Longrightarrow> set_nan_prefix out k ! j = None"
  by (simp add: set_nan_prefix_def nth_append)

lemma seeded_length: "length (seeded uninit n w v) = n"
  by (simp add: seeded_def nan_prefix_length np_empty_def)

lemma seeded_warmup: "j < w - 1 \<Longrightarrow> w \<le> n \<Longrightarrow> seeded uninit n w v ! j = None"
  by (simp add: seeded_def nan_prefix_nth np_empty_def)

lemma seeded_seed: "0 < w \<Longrightarrow> w \<le> n \<Longrightarrow> seeded uninit n w v ! (w - 1) = v"
  by (simp add: seeded_def nan_prefix_length np_empty_def)

lemma seeded_agree:
  assumes "0 < w" and "w \<le> n" and "j < w"
  shows "seeded g n w v ! j = seeded g' n w v ! j"
proof (cases "j = w - 1")
  case True
  with assms seeded_seed [of w n g v] seeded_seed [of w n g' v] show ?thesis by simp
next
  case False
  with assms have "j < w - 1" by arith
  with assms seeded_warmup [of j w n g v] seeded_warmup [of j w n g' v] show ?thesis by simp
qed

lemma written_agree: "written w n i out out' \<Longrightarrow> j < i \<Longrightarrow> out ! j = out' ! j"
  unfolding written_def by blast

lemma written_defined:
  "written w n i out out' \<Longrightarrow> w - 1 \<le> j \<Longrightarrow> j < i \<Longrightarrow> out ! j \<noteq> None"
  unfolding written_def by blast

lemma written_seeded:
  assumes "0 < w" and "w \<le> n" and "v \<noteq> None"
  shows "written w n w (seeded g n w v) (seeded g' n w v)"
  unfolding written_def
proof (intro conjI allI impI)
  fix j assume "j < w"
  with assms(1,2) show "seeded g n w v ! j = seeded g' n w v ! j" by (rule seeded_agree)
next
  fix j assume "j < w - 1"
  then show "seeded g n w v ! j = None" using assms(2) by (rule seeded_warmup)
next
  fix j assume "w - 1 \<le> j \<and> j < w"
  then have "j = w - 1" by arith
  with assms seeded_seed [of w n g v] show "seeded g n w v ! j \<noteq> None" by simp
qed (simp_all add: seeded_length)

lemma written_update:
  assumes "written w n i out out'" and "w \<le> i" and "i < n" and "v \<noteq> None"
  shows "written w n (Suc i) (out[i := v]) (out'[i := v])"
proof -
  from assms(1) have len: "length out = n" "length out' = n"
    and agree: "\<And>j. j < i \<Longrightarrow> out ! j = out' ! j"
    and warm: "\<And>j. j < w - 1 \<Longrightarrow> out ! j = None"
    and defd: "\<And>j. w - 1 \<le> j \<Longrightarrow> j < i \<Longrightarrow> out ! j \<noteq> None"
    unfolding written_def by blast+
  have a: "out[i := v] ! j = out'[i := v] ! j" if "j < Suc i" for j
  proof (cases "j = i")
    case True
    with len assms(3) show ?thesis by simp
  next
    case False
    with that have "j < i" by simp
    with False agree show ?thesis by simp
  qed
  have b: "out[i := v] ! j = None" if "j < w - 1" for j
  proof -
    from that assms(2) have "j \<noteq> i" by arith
    with warm [OF that] show ?thesis by simp
  qed
  have c: "out[i := v] ! j \<noteq> None" if "w - 1 \<le> j" "j < Suc i" for j
  proof (cases "j = i")
    case True
    with len assms(3,4) show ?thesis by simp
  next
    case False
    with that have "j < i" by simp
    with False defd [OF that(1)] show ?thesis by simp
  qed
  from a b c len show ?thesis
    unfolding written_def by simp
qed

lemma written_all:
  assumes "written w n n out out'"
  shows "out = out' \<and> warmup_shape w n out"
proof -
  from assms have len: "length out = n" "length out' = n"
    and agree: "\<And>j. j < n \<Longrightarrow> out ! j = out' ! j"
    unfolding written_def by blast+
  have "out = out'"
    by (rule nth_equalityI) (simp_all add: len agree)
  moreover from assms have "warmup_shape w n out"
    unfolding written_def warmup_shape_def by blast
  ultimately show ?thesis by simp
qed

lemma sma_both:
  assumes "0 < w" and "w \<le> length arr" and "None \<notin> set arr"
  shows "written w (length arr) (length arr)
           (snd (fold (sma_step arr w) [w ..< length arr]
                   (np_sum (take w arr), seeded g (length arr) w (fdiv (np_sum (take w arr)) w))))
           (snd (fold (sma_step arr w) [w ..< length arr]
                   (np_sum (take w arr), seeded g' (length arr) w (fdiv (np_sum (take w arr)) w))))"
proof -
  let ?n = "length arr"
  let ?cs = "np_sum (take w arr)"
  let ?P = "\<lambda>i pq. fst (fst pq) = fst (snd pq) \<and> fst (fst pq) \<noteq> None
                    \<and> written w ?n i (snd (fst pq)) (snd (snd pq))"
  let ?step = "\<lambda>i pq. (sma_step arr w i (fst pq), sma_step arr w i (snd pq))"
  have cs: "?cs \<noteq> None"
    using assms(3) by (intro np_sum_defined) (auto dest: in_set_takeD)
  have init: "?P w ((?cs, seeded g ?n w (fdiv ?cs w)), (?cs, seeded g' ?n w (fdiv ?cs w)))"
    using cs assms by (simp add: written_seeded fdiv_defined)
  have step: "?P (Suc i) (?step i pq)" if "w \<le> i" "i < ?n" "?P i pq" for i pq
  proof -
    obtain c out c' out' where pq: "pq = ((c, out), (c', out'))"
      by (cases pq) auto
    from that(3) pq have c: "c' = c" "c \<noteq> None" and wr: "written w ?n i out out'"
      by auto
    from that(1,2) assms(3) have "arr ! i \<noteq> None" "arr ! (i - w) \<noteq> None"
      by (metis nth_mem, metis nth_mem less_imp_diff_less)
    with c(2) have new: "fadd c (fsub (arr ! i) (arr ! (i - w))) \<noteq> None"
      by (auto simp: fadd_def fsub_def)
    from written_update [OF wr that(1,2) fdiv_defined [OF new]] new
    show ?thesis by (simp add: pq c sma_step_def Let_def)
  qed
  have "?P ?n (fold ?step [w ..< ?n]
                 ((?cs, seeded g ?n w (fdiv ?cs w)), (?cs, seeded g' ?n w (fdiv ?cs w))))"
    using assms(2) init step by (rule fold_upt_invariant)
  then show ?thesis by (simp add: fold_both)
qed

lemma ema_both:
  assumes "0 < w" and "w \<le> length arr" and "None \<notin> set arr"
  shows "written w (length arr) (length arr)
           (fold (ema_step arr m) [w ..< length arr]
              (seeded g (length arr) w (fdiv (np_sum (take w arr)) w)))
           (fold (ema_step arr m) [w ..< length arr]
              (seeded g' (length arr) w (fdiv (np_sum (take w arr)) w)))"
proof -
  let ?n = "length arr"
  let ?v = "fdiv (np_sum (take w arr)) w"
  let ?P = "\<lambda>i pq. written w ?n i (fst pq) (snd pq)"
  let ?step = "\<lambda>i pq. (ema_step arr m i (fst pq), ema_step arr m i (snd pq))"
  have v: "?v \<noteq> None"
    using assms(3) by (intro fdiv_defined np_sum_defined) (auto dest: in_set_takeD)
  have init: "?P w (seeded g ?n w ?v, seeded g' ?n w ?v)"
    using v assms by (simp add: written_seeded)
  have step: "?P (Suc i) (?step i pq)" if "w \<le> i" "i < ?n" "?P i pq" for i pq
  proof -
    obtain out out' where pq: "pq = (out, out')" by (cases pq)
    from that(3) pq have wr: "written w ?n i out out'" by simp
    from that(1) assms(1) have prev: "w - 1 \<le> i - 1" "i - 1 < i" by simp_all
    from written_agree [OF wr prev(2)] written_defined [OF wr prev]
    have same: "out' ! (i - 1) = out ! (i - 1)" and def: "out ! (i - 1) \<noteq> None"
      by simp_all
    from that(2) assms(3) have "arr ! i \<noteq> None" by (metis nth_mem)
    with def have new: "fadd (fmul (fsub (arr ! i) (out ! (i - 1))) m) (out ! (i - 1)) \<noteq> None"
      by (auto simp: fadd_def fsub_def fmul_def)
    from written_update [OF wr that(1,2) new] same
    show ?thesis by (simp add: pq ema_step_def)
  qed
  have "?P ?n (fold ?step [w ..< ?n] (seeded g ?n w ?v, seeded g' ?n w ?v))"
    using assms(2) init step by (rule fold_upt_invariant)
  then show ?thesis by (simp add: fold_both)
qed

text \<open>
  C7, as the code has it.  For an input array without a not-a-number entry, a window
  \<open>w\<close> of at least 1 and at least \<open>w\<close> entries, both moving averages return an array of
  the length of the input whose first \<open>w - 1\<close> entries are the not-a-number marker and
  whose entries from \<open>w - 1\<close> on are numbers; and the array does not depend on what the
  freshly allocated output held, so that a second computation returns the same array.
\<close>

theorem moving_average_warmup_and_determinism:
  assumes "1 \<le> w" and "w \<le> length arr" and "None \<notin> set arr"
  shows "\<exists>sma ema. sma_numba g arr w = Inr sma \<and> sma_numba g' arr w = Inr sma
           \<and> warmup_shape w (length arr) sma
           \<and> ema_numba g arr w = Inr ema \<and> ema_numba g' arr w = Inr ema
           \<and> warmup_shape w (length arr) ema"
proof -
  from assms(1) have w: "0 < w" by simp
  let ?n = "length arr"
  let ?v = "fdiv (np_sum (take w arr)) w"
  define sma where
    "sma = snd (fold (sma_step arr w) [w ..< ?n] (np_sum (take w arr), seeded g ?n w ?v))"
  define ema where
    "ema = fold (ema_step arr (2 / (real w + 1))) [w ..< ?n] (seeded g ?n w ?v)"
  note sw = written_all [OF sma_both [OF w assms(2,3), of g g']]
  from sw have sma':
    "sma = snd (fold (sma_step arr w) [w ..< ?n] (np_sum (take w arr), seeded g' ?n w ?v))"
    unfolding sma_def by blast
  from sw have sma_shape: "warmup_shape w ?n sma"
    unfolding sma_def by blast
  note ew = written_all [OF ema_both [OF w assms(2,3), of "2 / (real w + 1)" g g']]
  from ew have ema': "ema = fold (ema_step arr (2 / (real w + 1))) [w ..< ?n] (seeded g' ?n w ?v)"
    unfolding ema_def by blast
  from ew have ema_shape: "warmup_shape w ?n ema"
    unfolding ema_def by blast
  have "sma_numba g arr w = Inr sma"
    using w assms(2) unfolding sma_def by (simp add: sma_numba_def Let_def seeded_def)
  moreover have "sma_numba g' arr w = Inr sma"
    using w assms(2) unfolding sma' by (simp add: sma_numba_def Let_def seeded_def)
  moreover have "ema_numba g arr w = Inr ema"
    using w assms(2) unfolding ema_def by (simp add: ema_numba_def Let_def seeded_def)
  moreover have "ema_numba g' arr w = Inr ema"
    using w assms(2) unfolding ema' by (simp add: ema_numba_def Let_def seeded_def)
  ultimately show ?thesis
    using sma_shape ema_shape by blast
qed

text \<open>The witness: window 2 over 1, 2, 3, from two different contents of fresh memory.\<close>

theorem moving_average_warmup_and_determinism_witness:
  "\<exists>sma ema. sma_numba zeros [Some 1, Some 2, Some 3] 2 = Inr sma
      \<and> sma_numba junk [Some 1, Some 2, Some 3] 2 = Inr sma
      \<and> warmup_shape 2 3 sma
      \<and> ema_numba zeros [Some 1, Some 2, Some 3] 2 = Inr ema
      \<and> ema_numba junk [Some 1, Some 2, Some 3] 2 = Inr ema
      \<and> warmup_shape 2 3 ema"
  using moving_average_warmup_and_determinism [of 2 "[Some 1, Some 2, Some 3]" zeros junk]
  by (simp add: numeral_3_eq_3)

text \<open>
  The claim as the specification states it, for every input array, fails on an array
  that holds a not-a-number: with window 2 the seed at index 1 is already not-a-number
  and so is every later entry.  The MACD signal line is such a call: an exponential
  average of a line whose warmup entries are not-a-number.
\<close>

theorem moving_average_nan_input_counterexample:
  "sma_numba zeros nan_first 2 = Inr [None, None, None]
   \<and> ema_numba zeros nan_first 2 = Inr [None, None, None]"
  by (simp add: sma_numba_def ema_numba_def nan_first_def Let_def np_empty_def set_nan_prefix_def
      np_sum_def fadd_def fsub_def fmul_def fdiv_def sma_step_def ema_step_def zeros_def
      upt_rec [of 2 3] upt_rec [of 0 3] upt_rec [of 1 3])

section \<open>The report aggregator\<close>

lemma seen_append: "seen f prev (us @ vs) = seen f (seen f prev us) vs"
  by (simp add: seen_def)

lemma seen_Cons: "seen f prev (u # us) = seen f (case f u of None \<Rightarrow> prev | Some v \<Rightarrow> Some v) us"
  by (simp add: seen_def)

lemma seen_none: "\<forall>u\<in>set us. f u = None \<Longrightarrow> seen f prev us = prev"
  by (induction us arbitrary: prev) (simp_all add: seen_def)

lemma seen_cong: "\<forall>u\<in>set us. f u = g u \<Longrightarrow> seen f prev us = seen g prev us"
  by (induction us arbitrary: prev) (simp_all add: seen_def)

lemma ffill_length: "length (ffill prev col) = length col"
  by (induction col arbitrary: prev) (simp_all add: Let_def)

lemma ffill_at:
  "ffill prev (map f (xs @ t # ys)) ! length xs = seen f prev (xs @ [t])"
proof (induction xs arbitrary: prev)
  case Nil
  show ?case by (simp add: Let_def seen_def)
next
  case (Cons x xs)
  show ?case
    using Cons.IH [of "case f x of None \<Rightarrow> prev | Some v \<Rightarrow> Some v"]
    by (simp add: Let_def seen_Cons)
qed

lemma asof_snoc_late:
  "t < u \<Longrightarrow> asof (s @ [(u, v)]) t = asof s t"
  by (simp add: asof_def)

lemma asof_snoc_early:
  "u \<le> t \<Longrightarrow> asof (s @ [(u, v)]) t = Some v"
  by (simp add: asof_def Let_def)

lemma seen_asof:
  assumes "ascending s" and "sorted L" and "distinct L"
    and "\<forall>x\<in>set L. x \<le> t"
    and "\<forall>u\<in>set (map fst s). u \<le> t \<longrightarrow> u \<in> set L"
  shows "seen (map_of s) None L = asof s t"
  using assms(1,5)
proof (induction s rule: rev_induct)
  case Nil
  show ?case by (simp add: seen_none asof_def)
next
  case (snoc r s)
  obtain u v where r: "r = (u, v)" by (cases r)
  from snoc.prems(1) have asc: "ascending s"
    and below: "\<forall>x\<in>set (map fst s). x < u"
    unfolding ascending_def r by (auto simp: sorted_append order_less_le)
  from below have fresh: "map_of s u = None"
    by (force simp: map_of_eq_None_iff)
  show ?case
  proof (cases "u \<le> t")
    case True
    with snoc.prems(2) have "u \<in> set L" by (simp add: r)
    then obtain L1 L2 where L: "L = L1 @ u # L2" by (meson split_list)
    define f where "f = map_of (s @ [r])"
    have after: "f x = None" if "x \<in> set L2" for x
    proof -
      from that assms(2,3) L have "u < x"
        by (auto simp: sorted_append order_less_le)
      with below have "x \<notin> fst ` set s" "x \<noteq> u" by auto
      then show ?thesis by (simp add: f_def r map_of_eq_None_iff)
    qed
    have here: "f u = Some v"
      using fresh by (simp add: f_def r map_add_def)
    have "seen f None L = seen f (seen f (seen f None L1) [u]) L2"
      by (simp add: L seen_def)
    also have "seen f (seen f None L1) [u] = Some v"
      by (simp add: seen_def here)
    also have "seen f (Some v) L2 = Some v"
      using after by (simp add: seen_none)
    finally show ?thesis
      using True by (simp add: f_def r asof_snoc_early)
  next
    case False
    then have late: "t < u" by simp
    have same: "map_of (s @ [r]) x = map_of s x" if "x \<in> set L" for x
    proof -
      from that assms(4) late have "x \<noteq> u" by auto
      then show ?thesis by (simp add: r map_add_def split: option.splits)
    qed
    have "seen (map_of (s @ [r])) None L = seen (map_of s) None L"
      using same by (intro seen_cong) simp
    also have "\<dots> = asof s t"
      using asc snoc.prems(2) by (intro snoc.IH) simp_all
    finally show ?thesis
      using late by (simp add: r asof_snoc_late)
  qed
qed

lemma column_ffill:
  assumes "ascending s" and "sorted idx" and "distinct idx"
    and "set (map fst s) \<subseteq> set idx" and "j < length idx"
  shows "ffill None (column idx s) ! j = asof s (idx ! j)"
proof -
  let ?t = "idx ! j"
  have split: "idx = take j idx @ ?t # drop (Suc j) idx"
    using assms(5) by (rule id_take_nth_drop)
  have len: "length (take j idx) = j"
    using assms(5) by simp
  have "ffill None (column idx s) ! j
          = ffill None (map (map_of s) (take j idx @ ?t # drop (Suc j) idx)) ! length (take j idx)"
    using split len by (simp add: column_def)
  also have "\<dots> = seen (map_of s) None (take j idx @ [?t])"
    by (rule ffill_at)
  also have "\<dots> = asof s ?t"
  proof (rule seen_asof [OF assms(1)])
    have pre: "take j idx @ [?t] = take (Suc j) idx"
      using assms(5) by (simp add: take_Suc_conv_app_nth)
    show "sorted (take j idx @ [?t])"
      unfolding pre using assms(2) by (rule sorted_wrt_take)
    show "distinct (take j idx @ [?t])"
      unfolding pre using assms(3) by (rule distinct_take)
    show "\<forall>x\<in>set (take j idx @ [?t]). x \<le> ?t"
    proof
      fix x assume "x \<in> set (take j idx @ [?t])"
      then have "x \<in> set (take (Suc j) idx)" by (simp only: pre)
      then obtain k where "k < Suc j" "k < length idx" "x = idx ! k"
        by (auto simp: in_set_conv_nth)
      with assms(2,5) show "x \<le> ?t"
        by (auto simp: sorted_iff_nth_mono)
    qed
    show "\<forall>u\<in>set (map fst s). u \<le> ?t \<longrightarrow> u \<in> set (take j idx @ [?t])"
    proof (intro ballI impI)
      fix u assume u: "u \<in> set (map fst s)" "u \<le> ?t"
      with assms(4) have "u \<in> set idx" by blast
      then obtain k where k: "k < length idx" "u = idx ! k"
        by (auto simp: in_set_conv_nth)
      have "k \<le> j"
      proof (rule ccontr)
        assume "\<not> k \<le> j"
        then have "j < k" by simp
        with assms(2) k(1) have "idx ! j \<le> idx ! k"
          by (simp add: sorted_iff_nth_mono)
        moreover from \<open>j < k\<close> assms(3,5) k(1) have "idx ! j \<noteq> idx ! k"
          by (simp add: nth_eq_iff_index_eq)
        ultimately show False using u(2) k(2) by simp
      qed
      with k assms(5) have "u \<in> set (take (Suc j) idx)"
        by (auto simp: in_set_conv_nth intro!: exI [of _ k])
      then show "u \<in> set (take j idx @ [?t])" by (simp only: pre)
    qed
  qed
  finally show ?thesis .
qed

lemma asof_delta:
  "asof (map (\<lambda>r. (fst r, snd r - C)) s) t = map_option (\<lambda>v. v - C) (asof s t)"
proof -
  have "filter (\<lambda>r. fst r \<le> t) (map (\<lambda>r. (fst r, snd r - C)) s)
          = map (\<lambda>r. (fst r, snd r - C)) (filter (\<lambda>r. fst r \<le> t) s)"
    by (simp add: filter_map o_def)
  then show ?thesis
    by (simp add: asof_def Let_def last_map)
qed

lemma ascending_delta: "ascending (map (\<lambda>r. (fst r, snd r - C)) s) = ascending s"
  by (simp add: ascending_def o_def)

lemma held_delta_fillna:
  "fillna0 (asof (map (\<lambda>r. (fst r, snd r - C)) s) t) = held_delta s C t"
  by (simp add: asof_delta held_delta_def fillna0_def split: option.splits)

lemma concat_index_props:
  "sorted (concat_index ss)" "distinct (concat_index ss)"
  "set (concat_index ss) = (\<Union>s\<in>set ss. fst ` set s)"
  by (auto simp: concat_index_def)

lemma concat_index_delta:
  "concat_index (map (map (\<lambda>r. (fst r, snd r - C))) curves) = concat_index curves"
  by (simp add: concat_index_def o_def)

lemma filled_column_at:
  assumes "ascending s" and "fst ` set s \<subseteq> set (concat_index curves)"
    and "j < length (concat_index curves)"
  shows "map fillna0 (ffill None (column (concat_index curves) (map (\<lambda>r. (fst r, snd r - C)) s))) ! j
           = held_delta s C (concat_index curves ! j)"
proof -
  let ?idx = "concat_index curves"
  let ?d = "map (\<lambda>r. (fst r, snd r - C)) s"
  have keys: "set (map fst ?d) \<subseteq> set ?idx"
    using assms(2) by (simp add: o_def)
  have asc: "ascending ?d"
    using assms(1) by (simp add: ascending_delta)
  have "j < length (ffill None (column ?idx ?d))"
    using assms(3) by (simp add: ffill_length column_def)
  then have "map fillna0 (ffill None (column ?idx ?d)) ! j = fillna0 (ffill None (column ?idx ?d) ! j)"
    by (rule nth_map)
  also have "ffill None (column ?idx ?d) ! j = asof ?d (?idx ! j)"
    using asc concat_index_props(1,2) keys assms(3) by (rule column_ffill)
  finally show ?thesis
    by (simp add: held_delta_fillna)
qed

text \<open>
  C5.  For curves with ascending timestamps, the portfolio curve has one row for every
  timestamp of any curve, in ascending order, and its value at a timestamp is the sum
  over the curves of (value of the curve at its latest row not after the timestamp,
  less the per-test capital), a curve counting for nothing before its first row, plus
  the number of curves times the per-test capital.
\<close>

theorem portfolio_is_sum_of_held_deltas:
  assumes "\<forall>s\<in>set curves. ascending s"
    and "t \<in> (\<Union>s\<in>set curves. fst ` set s)"
  shows "map_of (portfolio_equity curves config) t
           = Some ((\<Sum>s\<leftarrow>curves. held_delta s (INITIAL_CAPITAL config) t)
                   + real (length curves) * INITIAL_CAPITAL config)
       \<and> map fst (portfolio_equity curves config) = sort (remdups (concat (map (map fst) curves)))"
proof -
  let ?C = "INITIAL_CAPITAL config"
  let ?idx = "concat_index curves"
  let ?filled = "map (\<lambda>col. map fillna0 (ffill None col))
                   (map (column ?idx) (map (map (\<lambda>r. (fst r, snd r - ?C))) curves))"
  let ?totals = "map (\<lambda>j. sum_list (map (\<lambda>col. col ! j) ?filled)) [0 ..< length ?idx]"
  let ?vals = "map (\<lambda>d. d + ?C * real (length curves)) ?totals"
  from assms(2) have nonempty: "curves \<noteq> []" by auto
  then have run: "portfolio_equity curves config = zip ?idx ?vals"
    by (simp add: portfolio_equity_def aggregate_curves_def Let_def concat_index_delta o_def)
  from assms(2) have "t \<in> set ?idx"
    by (simp add: concat_index_props(3))
  then obtain j where j: "j < length ?idx" "?idx ! j = t"
    by (auto simp: in_set_conv_nth)
  have lens: "length ?idx = length ?vals" by simp
  have "map_of (zip ?idx ?vals) (?idx ! j) = Some (?vals ! j)"
    using lens concat_index_props(2) j(1) by (intro map_of_zip_nth) simp_all
  then have at_t: "map_of (zip ?idx ?vals) t = Some (?vals ! j)"
    by (simp only: j(2))
  have val: "?vals ! j = sum_list (map (\<lambda>col. col ! j) ?filled) + ?C * real (length curves)"
    using j(1) by simp
  have cols: "map (\<lambda>col. col ! j) ?filled = map (\<lambda>s. held_delta s ?C t) curves"
  proof -
    have "map (\<lambda>col. col ! j) ?filled
            = map (\<lambda>s. map fillna0 (ffill None (column ?idx (map (\<lambda>r. (fst r, snd r - ?C)) s))) ! j)
                curves"
      by (simp add: o_def)
    also have "\<dots> = map (\<lambda>s. held_delta s ?C t) curves"
    proof (rule map_cong [OF refl])
      fix s assume s: "s \<in> set curves"
      with assms(1) have "ascending s" by simp
      moreover from s have "fst ` set s \<subseteq> set ?idx"
        by (auto simp: concat_index_props(3))
      ultimately show "map fillna0 (ffill None (column ?idx (map (\<lambda>r. (fst r, snd r - ?C)) s))) ! j
                         = held_delta s ?C t"
        using j filled_column_at [of s curves j ?C] by simp
    qed
    finally show ?thesis .
  qed
  have "map_of (portfolio_equity curves config) t
           = Some ((\<Sum>s\<leftarrow>curves. held_delta s ?C t) + ?C * real (length curves))"
    by (simp only: run at_t val cols)
  then have "map_of (portfolio_equity curves config) t
           = Some ((\<Sum>s\<leftarrow>curves. held_delta s ?C t) + real (length curves) * ?C)"
    by (simp only: mult.commute)
  moreover have "map fst (portfolio_equity curves config) = sort (remdups (concat (map (map fst) curves)))"
    using lens by (simp only: run map_fst_zip) (simp add: concat_index_def)
  ultimately show ?thesis by simp
qed

text \<open>
  The witness is the scenario of the specification: both curves start at 1000, the first
  ends at 1100 on the third day, the second at 900 on the second day.  On the third
  day the portfolio stands at 2000 + 100 - 100 = 2000.
\<close>

theorem portfolio_is_sum_of_held_deltas_witness:
  "ascending curve_a \<and> ascending curve_b
   \<and> map_of (portfolio_equity [curve_a, curve_b] short_config) 172800 = Some 2000
   \<and> map fst (portfolio_equity [curve_a, curve_b] short_config) = [0, 86400, 172800]"
  using portfolio_is_sum_of_held_deltas [of "[curve_a, curve_b]" 172800 short_config]
  by (simp add: curve_a_def curve_b_def ascending_def short_config_def held_delta_def asof_def)


end
